theory Spec2Isabelle
  imports Complex_Main "HOL-Library.AList"
begin

section \<open>Numbers as the libraries compute them\<close>

text \<open>
  The notebook computes with numpy's float64 values. A value is kept here as what it
  denotes: a real number, one of the two infinities, or NaN (which pandas also uses for a
  missing entry). Finite arithmetic is exact: rounding and overflow are left out, and the
  two zeros are one. Underflow is left out too, except in the normal density below, where
  the notebook depends on it. The special values follow IEEE 754.
\<close>

datatype npfloat = NaN | NInf | PInf | Fin real

fun fneg :: "npfloat \<Rightarrow> npfloat" where
  "fneg NaN = NaN"
| "fneg NInf = PInf"
| "fneg PInf = NInf"
| "fneg (Fin x) = Fin (- x)"

fun fadd :: "npfloat \<Rightarrow> npfloat \<Rightarrow> npfloat" where
  "fadd (Fin x) (Fin y) = Fin (x + y)"
| "fadd NaN b = NaN"
| "fadd a NaN = NaN"
| "fadd PInf NInf = NaN"
| "fadd NInf PInf = NaN"
| "fadd PInf b = PInf"
| "fadd a PInf = PInf"
| "fadd NInf b = NInf"
| "fadd a NInf = NInf"

definition fsub :: "npfloat \<Rightarrow> npfloat \<Rightarrow> npfloat" where
  "fsub a b = fadd a (fneg b)"

text \<open>An infinity times a finite value: NaN at zero, otherwise the sign decides.\<close>

definition inf_times :: "bool \<Rightarrow> real \<Rightarrow> npfloat" where
  "inf_times positive y =
     (if y = 0 then NaN else if (0 < y) = positive then PInf else NInf)"

fun fmul :: "npfloat \<Rightarrow> npfloat \<Rightarrow> npfloat" where
  "fmul (Fin x) (Fin y) = Fin (x * y)"
| "fmul NaN b = NaN"
| "fmul a NaN = NaN"
| "fmul PInf PInf = PInf"
| "fmul PInf NInf = NInf"
| "fmul NInf PInf = NInf"
| "fmul NInf NInf = PInf"
| "fmul PInf (Fin y) = inf_times True y"
| "fmul NInf (Fin y) = inf_times False y"
| "fmul (Fin x) PInf = inf_times True x"
| "fmul (Fin x) NInf = inf_times False x"

text \<open>Division of a sum by a positive count, as the mean does.\<close>

fun fdiv_count :: "npfloat \<Rightarrow> nat \<Rightarrow> npfloat" where
  "fdiv_count (Fin x) n = Fin (x / real n)"
| "fdiv_count a n = a"

definition np_sum :: "npfloat list \<Rightarrow> npfloat" where
  "np_sum xs = foldl fadd (Fin 0) xs"

text \<open>
  \<^verbatim>\<open>np.mean\<close> of an array: the sum over the count; of an empty array it is NaN (0/0).
\<close>

definition np_mean :: "npfloat list \<Rightarrow> npfloat" where
  "np_mean xs = (if xs = [] then NaN else fdiv_count (np_sum xs) (length xs))"

text \<open>
  \<^verbatim>\<open>np.mean\<close> of a pandas Series hands over to the Series' own \<^verbatim>\<open>mean\<close>, whose
  default leaves the missing entries out; with no entry left the result is NaN.
\<close>

definition series_mean :: "npfloat list \<Rightarrow> npfloat" where
  "series_mean xs = np_mean (filter (\<lambda>v. v \<noteq> NaN) xs)"

definition np_square :: "npfloat \<Rightarrow> npfloat" where
  "np_square x = fmul x x"

text \<open>
  The smallest positive float64 is \<^verbatim>\<open>2**-1074\<close>; a result whose exact value is less
  than half of it in absolute value is rounded to zero.
\<close>

definition underflow :: "real \<Rightarrow> real" where
  "underflow d = (if \<bar>d\<bar> < 1 / 2 ^ 1075 then 0 else d)"

text \<open>
  \<^verbatim>\<open>scipy.stats.norm.pdf\<close>: the standard normal density
  \<^verbatim>\<open>exp(-x**2/2) / sqrt(2*pi)\<close>, zero outside the open support. Far from zero the
  density underflows: it is 0.0 from about \<open>\<bar>x\<bar> = 38.6\<close> on.
\<close>

fun norm_pdf :: "npfloat \<Rightarrow> npfloat" where
  "norm_pdf (Fin x) = Fin (underflow (exp (- (x\<^sup>2) / 2) / sqrt (2 * pi)))"
| "norm_pdf NaN = NaN"
| "norm_pdf a = Fin 0"

fun np_log :: "npfloat \<Rightarrow> npfloat" where
  "np_log (Fin x) = (if 0 < x then Fin (ln x) else if x = 0 then NInf else NaN)"
| "np_log PInf = PInf"
| "np_log a = NaN"

text \<open>\<^verbatim>\<open>np.clip(a, a_min, None)\<close>: the larger of the entry and the bound; NaN stays.\<close>

fun np_clip_min :: "npfloat \<Rightarrow> real \<Rightarrow> npfloat" where
  "np_clip_min (Fin x) a_min = Fin (max x a_min)"
| "np_clip_min NInf a_min = Fin a_min"
| "np_clip_min a a_min = a"

section \<open>Errors and dataframes\<close>

datatype error = KeyError string | ValueError

definition and_then :: "error + 'a \<Rightarrow> ('a \<Rightarrow> error + 'b) \<Rightarrow> error + 'b" where
  "and_then r f = (case r of Inl e \<Rightarrow> Inl e | Inr v \<Rightarrow> f v)"

text \<open>
  A dataframe: its index (with the index's name) and its columns in order, each a label
  with the column's entries. In a frame pandas builds, every column is as long as the
  index and no label occurs twice.
\<close>

record dataframe =
  index_name :: "string option"
  index :: "nat list"
  cols :: "(string \<times> npfloat list) list"

definition well_formed :: "dataframe \<Rightarrow> bool" where
  "well_formed df =
     (distinct (map fst (cols df)) \<and>
      list_all (\<lambda>c. length (snd c) = length (index df)) (cols df))"

text \<open>\<^verbatim>\<open>df[label]\<close>: the column, or KeyError.\<close>

definition df_getitem :: "dataframe \<Rightarrow> string \<Rightarrow> error + npfloat list" where
  "df_getitem df label =
     (case map_of (cols df) label of None \<Rightarrow> Inl (KeyError label) | Some v \<Rightarrow> Inr v)"

text \<open>
  \<^verbatim>\<open>df[label] = values\<close> with an array: an existing column is replaced in its place, a
  new one comes last; an array of another length than the index is a ValueError.
\<close>

definition df_setitem :: "dataframe \<Rightarrow> string \<Rightarrow> npfloat list \<Rightarrow> error + dataframe" where
  "df_setitem df label values =
     (if length values \<noteq> length (index df) then Inl ValueError
      else Inr (df\<lparr>cols := AList.update label values (cols df)\<rparr>))"

section \<open>Example 1\<close>

text \<open>
  \<^verbatim>\<open>
  def get_moments(df, beta):
      residuals = df["Y"] - (1 + beta * df["X"])
      moments = df["X"] * residuals
      return np.mean(moments)
  \<close>
  Both operands of an operator between two columns of one frame carry the frame's index,
  so the operator works entry by entry.
\<close>

definition get_moments_1 :: "dataframe \<Rightarrow> real \<Rightarrow> error + npfloat" where
  "get_moments_1 df beta =
     and_then (df_getitem df ''Y'') (\<lambda>y.
     and_then (df_getitem df ''X'') (\<lambda>x.
       let residuals = map2 fsub y (map (\<lambda>v. fadd (Fin 1) (fmul (Fin beta) v)) x) in
       and_then (df_getitem df ''X'') (\<lambda>x'.
         let moments = map2 fmul x' residuals in
         Inr (series_mean moments))))"

text \<open>
  \<^verbatim>\<open>
  def criterion_function_gmm(beta, df):
      moments = get_moments(df, beta)
      # Where is weighting matrix?
      return np.square(np.mean(moments))
  \<close>
  Here \<^verbatim>\<open>moments\<close> is one number, and its mean is the mean over that one entry.
\<close>

definition criterion_function_gmm_1 :: "real \<Rightarrow> dataframe \<Rightarrow> error + npfloat" where
  "criterion_function_gmm_1 beta df =
     and_then (get_moments_1 df beta) (\<lambda>moments.
       Inr (np_square (np_mean [moments])))"

text \<open>
  \<^verbatim>\<open>
  def get_residuals(df, beta):
      residuals = df["Y"] - (1 + beta * df["X"])
      return residuals

  def criterion_function_mle(beta, df):
      residuals = get_residuals(df, beta)
      rslt = np.clip(np.log(norm.pdf(residuals)), -10e6, None)
      return -np.mean(rslt)
  \<close>
\<close>

definition get_residuals :: "dataframe \<Rightarrow> real \<Rightarrow> error + npfloat list" where
  "get_residuals df beta =
     and_then (df_getitem df ''Y'') (\<lambda>y.
     and_then (df_getitem df ''X'') (\<lambda>x.
       let residuals = map2 fsub y (map (\<lambda>v. fadd (Fin 1) (fmul (Fin beta) v)) x) in
       Inr residuals))"

definition criterion_function_mle :: "real \<Rightarrow> dataframe \<Rightarrow> error + npfloat" where
  "criterion_function_mle beta df =
     and_then (get_residuals df beta) (\<lambda>residuals.
       let rslt = map (\<lambda>v. np_clip_min v (- 10000000)) (map np_log (map norm_pdf residuals)) in
       Inr (fneg (np_mean rslt)))"

section \<open>Example 2\<close>

text \<open>
  \<^verbatim>\<open>
  def get_moments(df, beta):
      residuals = df["Y"] - (1 + beta * df["X"])
      moments = list()
      for label in ["Z1", "Z2"]:
          moments.append(np.mean(df[label] * residuals))
      return moments
  \<close>
  The loop over the labels is \<open>moments_loop\<close>; its last argument is the list built so far.
\<close>

fun moments_loop ::
  "dataframe \<Rightarrow> npfloat list \<Rightarrow> string list \<Rightarrow> npfloat list \<Rightarrow> error + npfloat list" where
  "moments_loop df residuals [] moments = Inr moments"
| "moments_loop df residuals (label # labels) moments =
     and_then (df_getitem df label) (\<lambda>z.
       moments_loop df residuals labels (moments @ [series_mean (map2 fmul z residuals)]))"

definition get_moments_2 :: "dataframe \<Rightarrow> real \<Rightarrow> error + npfloat list" where
  "get_moments_2 df beta =
     and_then (df_getitem df ''Y'') (\<lambda>y.
     and_then (df_getitem df ''X'') (\<lambda>x.
       let residuals = map2 fsub y (map (\<lambda>v. fadd (Fin 1) (fmul (Fin beta) v)) x) in
       moments_loop df residuals [''Z1'', ''Z2''] []))"

text \<open>
  \<^verbatim>\<open>np.dot\<close> of a vector and a matrix (the matrix as the list of its rows): entry \<open>j\<close> of
  the result is the sum over \<open>i\<close> of \<open>v\<^sub>i * W\<^sub>i\<^sub>j\<close>. Of two vectors: the sum of the
  products. Shapes that do not fit are a ValueError.
\<close>

definition np_dot_vv :: "npfloat list \<Rightarrow> npfloat list \<Rightarrow> error + npfloat" where
  "np_dot_vv a b =
     (if length a \<noteq> length b then Inl ValueError else Inr (np_sum (map2 fmul a b)))"

definition ncols :: "real list list \<Rightarrow> nat" where
  "ncols W = (case W of [] \<Rightarrow> 0 | row # _ \<Rightarrow> length row)"

definition np_dot_vm :: "npfloat list \<Rightarrow> real list list \<Rightarrow> error + npfloat list" where
  "np_dot_vm v W =
     (if length v \<noteq> length W \<or> \<not> list_all (\<lambda>row. length row = ncols W) W then Inl ValueError
      else Inr (map (\<lambda>j. np_sum (map2 (\<lambda>vi row. fmul vi (Fin (row ! j))) v W)) [0..<ncols W]))"

definition np_identity :: "nat \<Rightarrow> real list list" where
  "np_identity n = map (\<lambda>i. map (\<lambda>j. if i = j then 1 else 0) [0..<n]) [0..<n]"

text \<open>
  \<^verbatim>\<open>
  def criterion_function_gmm(beta, df, weighing_matrix=np.identity(2)):
      moments = get_moments(df, beta)
      rslt = np.dot(np.dot(moments, weighing_matrix), moments)
      return rslt
  \<close>
  Called without a matrix, the function uses \<open>np_identity 2\<close>.
\<close>

definition criterion_function_gmm_2 ::
  "real \<Rightarrow> dataframe \<Rightarrow> real list list \<Rightarrow> error + npfloat" where
  "criterion_function_gmm_2 beta df weighing_matrix =
     and_then (get_moments_2 df beta) (\<lambda>moments.
     and_then (np_dot_vm moments weighing_matrix) (\<lambda>t.
       np_dot_vv t moments))"

definition criterion_function_gmm_2_default :: "real \<Rightarrow> dataframe \<Rightarrow> error + npfloat" where
  "criterion_function_gmm_2_default beta df = criterion_function_gmm_2 beta df (np_identity 2)"

section \<open>Sample generation\<close>

text \<open>
  The state of numpy's global random number generator is kept as the sequence of standard
  normal variates it will hand out next. \<^verbatim>\<open>np.random.seed(seed)\<close> replaces the state by
  the one the seed determines; how the generator gets there is the library's business, so
  the map \<open>seeding\<close> from seeds to states is an argument of the sampling functions. A
  seed above \<open>2\<^sup>3\<^sup>2 - 1\<close> is refused with a ValueError, and the state stays as it was.
  \<^verbatim>\<open>np.random.normal(loc, scale, size)\<close> takes the next \<open>size\<close> variates \<open>z\<close> and
  returns \<open>loc + scale * z\<close> for each.
\<close>

type_synonym rng_state = "nat \<Rightarrow> real"

definition np_random_seed ::
  "(nat \<Rightarrow> rng_state) \<Rightarrow> nat \<Rightarrow> rng_state \<Rightarrow> (error + unit) \<times> rng_state" where
  "np_random_seed seeding seed g =
     (if seed < 2 ^ 32 then (Inr (), seeding seed) else (Inl ValueError, g))"

definition np_random_normal ::
  "real \<Rightarrow> real \<Rightarrow> nat \<Rightarrow> rng_state \<Rightarrow> npfloat list \<times> rng_state" where
  "np_random_normal loc scale sz g =
     (map (\<lambda>i. Fin (loc + scale * g i)) [0..<sz], (\<lambda>i. g (i + sz)))"

text \<open>\<^verbatim>\<open>random_sampling = partial(np.random.normal, size=num_agents)\<close>\<close>

definition random_sampling :: "nat \<Rightarrow> real \<Rightarrow> rng_state \<Rightarrow> npfloat list \<times> rng_state" where
  "random_sampling num_agents scale g = np_random_normal 0 scale num_agents g"

type_synonym pd_index = "nat list \<times> string option"

definition pd_Index :: "nat list \<Rightarrow> string \<Rightarrow> pd_index" where
  "pd_Index vals name = (vals, Some name)"

text \<open>\<^verbatim>\<open>np.vstack\<close> stacks arrays of one length as the rows of a matrix.\<close>

definition np_vstack :: "npfloat list list \<Rightarrow> error + npfloat list list" where
  "np_vstack arrays =
     (case arrays of [] \<Rightarrow> Inl ValueError
      | a # rest \<Rightarrow> if list_all (\<lambda>b. length b = length a) rest then Inr arrays
                    else Inl ValueError)"

text \<open>
  \<^verbatim>\<open>pd.DataFrame(data, columns=columns, index=index)\<close> with a matrix: column \<open>j\<close> of the
  frame is column \<open>j\<close> of the matrix.
\<close>

definition pd_DataFrame ::
  "npfloat list list \<Rightarrow> string list \<Rightarrow> pd_index \<Rightarrow> error + dataframe" where
  "pd_DataFrame data columns idx =
     (if length data \<noteq> length (fst idx) \<or>
         \<not> list_all (\<lambda>row. length row = length columns) data
      then Inl ValueError
      else Inr \<lparr>index_name = snd idx, index = fst idx,
                cols = map (\<lambda>j. (columns ! j, map (\<lambda>row. row ! j) data))
                         [0..<length columns]\<rparr>)"

text \<open>
  \<^verbatim>\<open>
  def get_sample_1(num_agents, beta, seed=123):
      random_sampling = partial(np.random.normal, size=num_agents)
      np.random.seed(seed)
      X = random_sampling(scale=10)
      eps = random_sampling()
      Y = 1 + beta * X + eps
      index = pd.Index(range(num_agents), name="Identifier")
      columns = ["Y", "X"]
      df = pd.DataFrame(np.vstack((Y, X)).T, columns=columns, index=index)
      return df
  \<close>
  The function takes the generator's state at the call and returns the state it leaves.
  The size and the seed are natural numbers.
\<close>

definition get_sample_1 ::
  "(nat \<Rightarrow> rng_state) \<Rightarrow> nat \<Rightarrow> real \<Rightarrow> nat \<Rightarrow> rng_state \<Rightarrow> (error + dataframe) \<times> rng_state" where
  "get_sample_1 seeding num_agents beta seed g0 =
     (case np_random_seed seeding seed g0 of
        (Inl e, g1) \<Rightarrow> (Inl e, g1)
      | (Inr _, g1) \<Rightarrow>
          (let (X, g2) = random_sampling num_agents 10 g1;
               (eps, g3) = random_sampling num_agents 1 g2;
               Y = map2 fadd (map (\<lambda>v. fadd (Fin 1) (fmul (Fin beta) v)) X) eps;
               idx = pd_Index [0..<num_agents] ''Identifier'';
               columns = [''Y'', ''X'']
           in (and_then (np_vstack [Y, X]) (\<lambda>m. pd_DataFrame (transpose m) columns idx), g3)))"

text \<open>
  \<^verbatim>\<open>pd.DataFrame(columns=columns, index=index)\<close> without data: every entry is missing.
\<close>

definition pd_DataFrame_empty :: "string list \<Rightarrow> pd_index \<Rightarrow> dataframe" where
  "pd_DataFrame_empty columns idx =
     \<lparr>index_name = snd idx, index = fst idx,
      cols = map (\<lambda>c. (c, replicate (length (fst idx)) NaN)) columns\<rparr>"

text \<open>\<^verbatim>\<open>df[[l1, l2, ...]]\<close>: the frame of these columns, or KeyError.\<close>

fun select_cols :: "dataframe \<Rightarrow> string list \<Rightarrow> error + (string \<times> npfloat list) list" where
  "select_cols df [] = Inr []"
| "select_cols df (label # labels) =
     and_then (df_getitem df label) (\<lambda>v.
     and_then (select_cols df labels) (\<lambda>rest. Inr ((label, v) # rest)))"

definition df_getitems :: "dataframe \<Rightarrow> string list \<Rightarrow> error + dataframe" where
  "df_getitems df labels = and_then (select_cols df labels) (\<lambda>cs. Inr (df\<lparr>cols := cs\<rparr>))"

text \<open>
  \<^verbatim>\<open>df.sum(axis=1)\<close>: the sum of each row, a missing entry left out (a row with no
  entry sums to 0).
\<close>

definition nan_add :: "npfloat \<Rightarrow> npfloat \<Rightarrow> npfloat" where
  "nan_add acc v = (if v = NaN then acc else fadd acc v)"

definition df_sum_axis1 :: "dataframe \<Rightarrow> npfloat list" where
  "df_sum_axis1 df =
     foldl (\<lambda>acc c. map2 nan_add acc (snd c)) (replicate (length (index df)) (Fin 0)) (cols df)"

text \<open>
  \<^verbatim>\<open>
  def get_sample_2(num_agents, beta, seed=123):
      random_sampling = partial(np.random.normal, size=num_agents)
      np.random.seed(seed)
      index = pd.Index(range(num_agents), name="Identifier")
      columns = ["Y", "X", "Z1", "Z2"]
      df = pd.DataFrame(columns=columns, index=index)
      for label in ["Z1", "Z2"]:
          df[label] = random_sampling(scale=10)
      C = random_sampling(scale=10)
      df["X"] = C + df[["Z1", "Z2"]].sum(axis=1) + random_sampling()
      U = C + random_sampling()
      df["Y"] = 1 + beta * df["X"] + U
      return df
  \<close>
  \<open>fill_loop\<close> is the loop over the two instrument labels.
\<close>

fun fill_loop ::
  "nat \<Rightarrow> string list \<Rightarrow> dataframe \<Rightarrow> rng_state \<Rightarrow> (error + dataframe) \<times> rng_state" where
  "fill_loop num_agents [] df g = (Inr df, g)"
| "fill_loop num_agents (label # labels) df g =
     (let (v, g') = random_sampling num_agents 10 g in
      case df_setitem df label v of
        Inl e \<Rightarrow> (Inl e, g')
      | Inr df' \<Rightarrow> fill_loop num_agents labels df' g')"

definition get_sample_2 ::
  "(nat \<Rightarrow> rng_state) \<Rightarrow> nat \<Rightarrow> real \<Rightarrow> nat \<Rightarrow> rng_state \<Rightarrow> (error + dataframe) \<times> rng_state" where
  "get_sample_2 seeding num_agents beta seed g0 =
     (case np_random_seed seeding seed g0 of
        (Inl e, g1) \<Rightarrow> (Inl e, g1)
      | (Inr _, g1) \<Rightarrow>
          (let idx = pd_Index [0..<num_agents] ''Identifier'';
               columns = [''Y'', ''X'', ''Z1'', ''Z2''];
               df0 = pd_DataFrame_empty columns idx
           in case fill_loop num_agents [''Z1'', ''Z2''] df0 g1 of
                (Inl e, g2) \<Rightarrow> (Inl e, g2)
              | (Inr df1, g2) \<Rightarrow>
                  (let (C, g3) = random_sampling num_agents 10 g2 in
                   case df_getitems df1 [''Z1'', ''Z2''] of
                     Inl e \<Rightarrow> (Inl e, g3)
                   | Inr zs \<Rightarrow>
                       (let s = df_sum_axis1 zs;
                            (nu, g4) = random_sampling num_agents 1 g3
                        in case df_setitem df1 ''X'' (map2 fadd (map2 fadd C s) nu) of
                             Inl e \<Rightarrow> (Inl e, g4)
                           | Inr df2 \<Rightarrow>
                               (let (u, g5) = random_sampling num_agents 1 g4;
                                    U = map2 fadd C u
                                in case df_getitem df2 ''X'' of
                                     Inl e \<Rightarrow> (Inl e, g5)
                                   | Inr x \<Rightarrow>
                                       (df_setitem df2 ''Y''
                                          (map2 fadd
                                             (map (\<lambda>v. fadd (Fin 1) (fmul (Fin beta) v)) x)
                                             U),
                                        g5))))))"

section \<open>The computations on a store\<close>

text \<open>
  In Python a dataframe is an object the caller and the callee share, and \<^verbatim>\<open>df["Y"]\<close>
  gives access to the column's own data rather than a copy. To say what a computation
  does to its argument, the functions of Examples 1 and 2 are written a second time, now
  over a store of arrays: a frame holds the addresses of its columns, indexing a frame
  returns the address of the column itself, an operator or a library function puts its
  result into a newly allocated array, and a reduction only reads. The names end in
  \<open>_st\<close>; each function returns its result and the store it leaves.
\<close>

type_synonym addr = nat

record store =
  arrays :: "addr \<Rightarrow> npfloat list"
  next_addr :: addr

record frame_ref =
  ref_index_name :: "string option"
  ref_index :: "nat list"
  ref_cols :: "(string \<times> addr) list"

text \<open>The dataframe a frame denotes in a store.\<close>

definition view :: "store \<Rightarrow> frame_ref \<Rightarrow> dataframe" where
  "view s fr =
     \<lparr>index_name = ref_index_name fr, index = ref_index fr,
      cols = map (\<lambda>c. (fst c, arrays s (snd c))) (ref_cols fr)\<rparr>"

text \<open>The columns of the frame lie in the part of the store that is in use.\<close>

definition allocated :: "store \<Rightarrow> frame_ref \<Rightarrow> bool" where
  "allocated s fr = list_all (\<lambda>c. snd c < next_addr s) (ref_cols fr)"

text \<open>The store \<open>s'\<close> holds every array of \<open>s\<close> unchanged, and possibly new ones.\<close>

definition extends :: "store \<Rightarrow> store \<Rightarrow> bool" where
  "extends s s' = (next_addr s \<le> next_addr s' \<and> (\<forall>a<next_addr s. arrays s' a = arrays s a))"

definition st_alloc :: "npfloat list \<Rightarrow> store \<Rightarrow> addr \<times> store" where
  "st_alloc v s =
     (next_addr s, s\<lparr>arrays := (arrays s)(next_addr s := v), next_addr := Suc (next_addr s)\<rparr>)"

definition st_getitem :: "frame_ref \<Rightarrow> string \<Rightarrow> error + addr" where
  "st_getitem fr label =
     (case map_of (ref_cols fr) label of None \<Rightarrow> Inl (KeyError label) | Some a \<Rightarrow> Inr a)"

definition st_map :: "(npfloat \<Rightarrow> npfloat) \<Rightarrow> addr \<Rightarrow> store \<Rightarrow> addr \<times> store" where
  "st_map f a s = st_alloc (map f (arrays s a)) s"

definition st_binop ::
  "(npfloat \<Rightarrow> npfloat \<Rightarrow> npfloat) \<Rightarrow> addr \<Rightarrow> addr \<Rightarrow> store \<Rightarrow> addr \<times> store" where
  "st_binop f a b s = st_alloc (map2 f (arrays s a) (arrays s b)) s"

text \<open>
  The residuals \<^verbatim>\<open>df["Y"] - (1 + beta * df["X"])\<close>, the first line of both \<^verbatim>\<open>get_moments\<close>
  and the body of \<^verbatim>\<open>get_residuals\<close>: three new arrays, for \<^verbatim>\<open>beta * df["X"]\<close>, for
  \<^verbatim>\<open>1 + ...\<close> and for the difference.
\<close>

definition get_residuals_st :: "frame_ref \<Rightarrow> real \<Rightarrow> store \<Rightarrow> (error + addr) \<times> store" where
  "get_residuals_st fr beta s =
     (case st_getitem fr ''Y'' of
        Inl e \<Rightarrow> (Inl e, s)
      | Inr y \<Rightarrow>
          (case st_getitem fr ''X'' of
             Inl e \<Rightarrow> (Inl e, s)
           | Inr x \<Rightarrow>
               (let (t1, s1) = st_map (fmul (Fin beta)) x s;
                    (t2, s2) = st_map (fadd (Fin 1)) t1 s1;
                    (residuals, s3) = st_binop fsub y t2 s2
                in (Inr residuals, s3))))"

definition get_moments_1_st :: "frame_ref \<Rightarrow> real \<Rightarrow> store \<Rightarrow> (error + npfloat) \<times> store" where
  "get_moments_1_st fr beta s =
     (case get_residuals_st fr beta s of
        (Inl e, s3) \<Rightarrow> (Inl e, s3)
      | (Inr residuals, s3) \<Rightarrow>
          (case st_getitem fr ''X'' of
             Inl e \<Rightarrow> (Inl e, s3)
           | Inr x \<Rightarrow>
               (let (moments, s4) = st_binop fmul x residuals s3
                in (Inr (series_mean (arrays s4 moments)), s4))))"

definition criterion_function_gmm_1_st ::
  "real \<Rightarrow> frame_ref \<Rightarrow> store \<Rightarrow> (error + npfloat) \<times> store" where
  "criterion_function_gmm_1_st beta fr s =
     (case get_moments_1_st fr beta s of
        (Inl e, s') \<Rightarrow> (Inl e, s')
      | (Inr moments, s') \<Rightarrow> (Inr (np_square (np_mean [moments])), s'))"

definition criterion_function_mle_st ::
  "real \<Rightarrow> frame_ref \<Rightarrow> store \<Rightarrow> (error + npfloat) \<times> store" where
  "criterion_function_mle_st beta fr s =
     (case get_residuals_st fr beta s of
        (Inl e, s3) \<Rightarrow> (Inl e, s3)
      | (Inr residuals, s3) \<Rightarrow>
          (let (p, s4) = st_map norm_pdf residuals s3;
               (l, s5) = st_map np_log p s4;
               (rslt, s6) = st_map (\<lambda>v. np_clip_min v (- 10000000)) l s5
           in (Inr (fneg (np_mean (arrays s6 rslt))), s6)))"

fun moments_loop_st ::
  "frame_ref \<Rightarrow> addr \<Rightarrow> string list \<Rightarrow> npfloat list \<Rightarrow> store \<Rightarrow> (error + npfloat list) \<times> store" where
  "moments_loop_st fr residuals [] moments s = (Inr moments, s)"
| "moments_loop_st fr residuals (label # labels) moments s =
     (case st_getitem fr label of
        Inl e \<Rightarrow> (Inl e, s)
      | Inr z \<Rightarrow>
          (let (t, s') = st_binop fmul z residuals s
           in moments_loop_st fr residuals labels (moments @ [series_mean (arrays s' t)]) s'))"

definition get_moments_2_st ::
  "frame_ref \<Rightarrow> real \<Rightarrow> store \<Rightarrow> (error + npfloat list) \<times> store" where
  "get_moments_2_st fr beta s =
     (case get_residuals_st fr beta s of
        (Inl e, s3) \<Rightarrow> (Inl e, s3)
      | (Inr residuals, s3) \<Rightarrow> moments_loop_st fr residuals [''Z1'', ''Z2''] [] s3)"

definition criterion_function_gmm_2_st ::
  "real \<Rightarrow> frame_ref \<Rightarrow> real list list \<Rightarrow> store \<Rightarrow> (error + npfloat) \<times> store" where
  "criterion_function_gmm_2_st beta fr weighing_matrix s =
     (case get_moments_2_st fr beta s of
        (Inl e, s') \<Rightarrow> (Inl e, s')
      | (Inr moments, s') \<Rightarrow>
          (and_then (np_dot_vm moments weighing_matrix) (\<lambda>t. np_dot_vv t moments), s'))"

definition example_store :: store where
  "example_store =
     \<lparr>arrays = (\<lambda>a. if a = 0 then [Fin 3, Fin 5] else if a = 1 then [Fin 1, Fin 2]
                      else if a = 2 then [Fin 1, Fin 0] else if a = 3 then [Fin 0, Fin 1]
                      else []),
      next_addr = 4\<rparr>"

definition example_ref :: frame_ref where
  "example_ref =
     \<lparr>ref_index_name = Some ''Identifier'', ref_index = [0, 1],
      ref_cols = [(''Y'', 0), (''X'', 1), (''Z1'', 2), (''Z2'', 3)]\<rparr>"

section \<open>Notions the properties are stated with\<close>

text \<open>
  The quadratic form \<open>m\<^sup>T W m\<close> in index notation: the row vector \<open>m\<^sup>T W\<close> has the
  entries \<open>\<Sum>i. m\<^sub>i * W\<^sub>i\<^sub>j\<close>, and the form is the sum over \<open>j\<close> of these entries times
  \<open>m\<^sub>j\<close>. \<open>quadratic_form_expanded\<close> is the same form multiplied out, the sum over all
  \<open>i\<close> and \<open>j\<close> of \<open>m\<^sub>i * W\<^sub>i\<^sub>j * m\<^sub>j\<close>.
\<close>

definition quadratic_form :: "npfloat list \<Rightarrow> real list list \<Rightarrow> npfloat" where
  "quadratic_form m W =
     np_sum (map (\<lambda>j. fmul (np_sum (map (\<lambda>i. fmul (m ! i) (Fin (W ! i ! j))) [0..<length m]))
                            (m ! j))
               [0..<length m])"

definition quadratic_form_expanded :: "npfloat list \<Rightarrow> real list list \<Rightarrow> npfloat" where
  "quadratic_form_expanded m W =
     np_sum (concat (map (\<lambda>i. map (\<lambda>j. fmul (fmul (m ! i) (Fin (W ! i ! j))) (m ! j))
                                  [0..<length m]) [0..<length m]))"

text \<open>The moment of one row \<open>(Y, X)\<close> in Example 1: \<open>X * (Y - (1 + beta * X))\<close>.\<close>

definition row_moment :: "real \<Rightarrow> npfloat \<times> npfloat \<Rightarrow> npfloat" where
  "row_moment beta r =
     (case r of (yi, xi) \<Rightarrow> fmul xi (fsub yi (fadd (Fin 1) (fmul (Fin beta) xi))))"

text \<open>An entry that is a number or missing, but not an infinity.\<close>

definition no_inf :: "npfloat \<Rightarrow> bool" where
  "no_inf v = (v \<noteq> PInf \<and> v \<noteq> NInf)"

text \<open>Small frames on which the theorems below are evaluated.\<close>

definition example_frame_1 :: dataframe where
  "example_frame_1 =
     \<lparr>index_name = Some ''Identifier'', index = [0, 1],
      cols = [(''Y'', [Fin 3, Fin 5]), (''X'', [Fin 1, Fin 2])]\<rparr>"

definition example_frame_2 :: dataframe where
  "example_frame_2 =
     \<lparr>index_name = Some ''Identifier'', index = [0, 1],
      cols = [(''Y'', [Fin 3, Fin 5]), (''X'', [Fin 1, Fin 2]),
              (''Z1'', [Fin 1, Fin 0]), (''Z2'', [Fin 0, Fin 1])]\<rparr>"

definition example_frame_far :: dataframe where
  "example_frame_far =
     \<lparr>index_name = Some ''Identifier'', index = [0],
      cols = [(''Y'', [Fin 5000]), (''X'', [Fin 0])]\<rparr>"

definition example_frame_inf :: dataframe where
  "example_frame_inf =
     \<lparr>index_name = Some ''Identifier'', index = [0, 1],
      cols = [(''Y'', [PInf, Fin 1]), (''X'', [Fin 0, Fin 0])]\<rparr>"

definition example_frame_gap :: dataframe where
  "example_frame_gap =
     \<lparr>index_name = Some ''Identifier'', index = [0, 1],
      cols = [(''Y'', [NaN, Fin 5]), (''X'', [Fin 1, Fin 2])]\<rparr>"

definition example_frame_missing :: dataframe where
  "example_frame_missing =
     \<lparr>index_name = Some ''Identifier'', index = [0, 1],
      cols = [(''Y'', [NaN, Fin 1]), (''X'', [Fin 0, Fin 0])]\<rparr>"

definition empty_frame :: dataframe where
  "empty_frame =
     \<lparr>index_name = Some ''Identifier'', index = [], cols = [(''Y'', []), (''X'', [])]\<rparr>"

text \<open>
  The negative mean of the log normal density of the residuals with nothing done to the
  log density: \<^verbatim>\<open>criterion_function_mle\<close> without its \<^verbatim>\<open>np.clip\<close>. The source has no such
  function; it is what the MLE criterion is compared with below.
\<close>

definition criterion_function_mle_unclipped :: "real \<Rightarrow> dataframe \<Rightarrow> error + npfloat" where
  "criterion_function_mle_unclipped beta df =
     and_then (get_residuals df beta) (\<lambda>residuals.
       Inr (fneg (np_mean (map np_log (map norm_pdf residuals)))))"

text \<open>One term of the MLE criterion: the log density of a residual after the clip.\<close>

definition clipped_log_density :: "npfloat \<Rightarrow> npfloat" where
  "clipped_log_density v = np_clip_min (np_log (norm_pdf v)) (- 10000000)"

section \<open>Basic facts about the number model\<close>

lemma and_then_simps [simp]:
  "and_then (Inr v) f = f v" "and_then (Inl e) f = Inl e"
  by (simp_all add: and_then_def)

lemma fadd_zero_left [simp]: "fadd (Fin 0) a = a"
  by (cases a) simp_all

lemma fmul_one_right [simp]: "fmul a (Fin 1) = a"
  by (cases a) (simp_all add: inf_times_def)

lemma np_mean_single [simp]: "np_mean [m] = m"
  by (cases m) (simp_all add: np_mean_def np_sum_def)

lemma np_sum_single [simp]: "np_sum [a] = a"
  by (simp add: np_sum_def)

lemma np_sum_pair [simp]: "np_sum [a, b] = fadd a b"
  by (simp add: np_sum_def)

lemma upt_2: "[0..<2] = [0, Suc 0]"
  by (simp add: numeral_2_eq_2)

lemma quadratic_form_1: "quadratic_form [m] [[w]] = fmul (fmul m (Fin w)) m"
  by (simp add: quadratic_form_def)

lemma map2_fused:
  "map2 g x (map2 h y (map f x)) = map (\<lambda>(yi, xi). g xi (h yi (f xi))) (zip y x)"
proof (induction x arbitrary: y)
  case Nil
  then show ?case by simp
next
  case (Cons a x)
  then show ?case by (cases y) simp_all
qed

lemma foldl_fadd_Fin: "foldl fadd (Fin a) (map Fin zs) = Fin (a + sum_list zs)"
  by (induction zs arbitrary: a) (simp_all add: add.assoc)

lemma np_sum_Fin: "np_sum (map Fin zs) = Fin (sum_list zs)"
  by (simp add: np_sum_def foldl_fadd_Fin)

lemma np_mean_Fin:
  "np_mean (map Fin zs) = (if zs = [] then NaN else Fin (sum_list zs / real (length zs)))"
  by (simp add: np_mean_def np_sum_Fin)

lemma series_mean_Fin: "series_mean (map Fin zs) = np_mean (map Fin zs)"
proof -
  have "filter (\<lambda>v. v \<noteq> NaN) (map Fin zs) = map Fin zs"
    by (induction zs) simp_all
  then show ?thesis by (simp add: series_mean_def)
qed

lemma get_moments_1_rows:
  assumes "df_getitem df ''Y'' = Inr y" and "df_getitem df ''X'' = Inr x"
  shows "get_moments_1 df beta = Inr (series_mean (map (row_moment beta) (zip y x)))"
proof -
  have "row_moment beta = (\<lambda>(yi, xi). fmul xi (fsub yi (fadd (Fin 1) (fmul (Fin beta) xi))))"
    by (rule ext) (simp add: row_moment_def)
  then show ?thesis
    using assms by (simp add: get_moments_1_def Let_def map2_fused)
qed

lemma row_moment_Fin:
  "map (row_moment beta) (zip (map Fin ys) (map Fin xs)) =
   map Fin (map (\<lambda>(yi, xi). xi * (yi - (1 + beta * xi))) (zip ys xs))"
  by (induction ys arbitrary: xs; case_tac xs) (simp_all add: row_moment_def fsub_def)

lemma no_inf_cases: "no_inf v \<Longrightarrow> (v = NaN \<Longrightarrow> P) \<Longrightarrow> (\<And>x. v = Fin x \<Longrightarrow> P) \<Longrightarrow> P"
  by (cases v) (simp_all add: no_inf_def)

lemma no_inf_simps [simp]: "no_inf NaN" "no_inf (Fin x)" "\<not> no_inf PInf" "\<not> no_inf NInf"
  by (simp_all add: no_inf_def)

lemma no_inf_fadd: "no_inf a \<Longrightarrow> no_inf b \<Longrightarrow> no_inf (fadd a b)"
  by (cases a; cases b) simp_all

lemma no_inf_fmul: "no_inf a \<Longrightarrow> no_inf b \<Longrightarrow> no_inf (fmul a b)"
  by (cases a; cases b) simp_all

lemma no_inf_fsub: "no_inf a \<Longrightarrow> no_inf b \<Longrightarrow> no_inf (fsub a b)"
  by (cases a; cases b) (simp_all add: fsub_def)

lemma no_inf_map2:
  assumes "\<And>a b. no_inf a \<Longrightarrow> no_inf b \<Longrightarrow> no_inf (f a b)"
    and "list_all no_inf xs" and "list_all no_inf ys"
  shows "list_all no_inf (map2 f xs ys)"
  using assms(2,3)
proof (induction xs arbitrary: ys)
  case Nil
  then show ?case by simp
next
  case (Cons a xs)
  then show ?case by (cases ys) (simp_all add: assms(1))
qed

lemma no_inf_map:
  assumes "\<And>a. no_inf a \<Longrightarrow> no_inf (f a)" and "list_all no_inf xs"
  shows "list_all no_inf (map f xs)"
  using assms(2) by (induction xs) (simp_all add: assms(1))

lemma foldl_fadd_no_inf: "no_inf a \<Longrightarrow> list_all no_inf xs \<Longrightarrow> no_inf (foldl fadd a xs)"
  by (induction xs arbitrary: a) (simp_all add: no_inf_fadd)

lemma no_inf_fdiv_count: "no_inf a \<Longrightarrow> no_inf (fdiv_count a n)"
  by (cases a) simp_all

lemma no_inf_np_mean: "list_all no_inf xs \<Longrightarrow> no_inf (np_mean xs)"
  by (simp add: np_mean_def np_sum_def foldl_fadd_no_inf no_inf_fdiv_count)

lemma no_inf_series_mean: "list_all no_inf xs \<Longrightarrow> no_inf (series_mean xs)"
proof -
  assume "list_all no_inf xs"
  then have "list_all no_inf (filter (\<lambda>v. v \<noteq> NaN) xs)"
    by (induction xs) simp_all
  then show ?thesis by (simp add: series_mean_def no_inf_np_mean)
qed

lemma residuals_no_inf:
  assumes "list_all no_inf y" and "list_all no_inf x"
  shows "list_all no_inf (map2 fsub y (map (\<lambda>v. fadd (Fin 1) (fmul (Fin beta) v)) x))"
  by (intro no_inf_map2 no_inf_map no_inf_fsub no_inf_fadd no_inf_fmul assms) simp_all

section \<open>The moment conditions and the GMM criteria\<close>

text \<open>
  Claim C2, as amended. For every dataframe with columns \<open>Y\<close> and \<open>X\<close> and every \<open>beta\<close>,
  the \<^verbatim>\<open>get_moments\<close> of Example 1 returns the mean of \<open>X * (Y - (1 + beta * X))\<close> over
  the rows where this value is not NaN: the sum of these values over their number, and NaN
  when there is none. When every entry of the two columns is a number, no row is left out
  and the result is the mean over all rows, the empirical moment condition.
\<close>

theorem get_moments_1_mean:
  assumes "df_getitem df ''Y'' = Inr y" and "df_getitem df ''X'' = Inr x"
  shows "get_moments_1 df beta =
           Inr (let present = filter (\<lambda>v. v \<noteq> NaN) (map (row_moment beta) (zip y x))
                in if present = [] then NaN
                   else fdiv_count (foldl fadd (Fin 0) present) (length present)) \<and>
         (\<forall>ys xs. y = map Fin ys \<and> x = map Fin xs \<longrightarrow>
            get_moments_1 df beta =
              Inr (if zip ys xs = [] then NaN
                   else Fin (sum_list (map (\<lambda>(yi, xi). xi * (yi - (1 + beta * xi))) (zip ys xs))
                             / real (length (zip ys xs)))))"
proof -
  have rows: "get_moments_1 df beta = Inr (series_mean (map (row_moment beta) (zip y x)))"
    using assms by (rule get_moments_1_rows)
  have present: "get_moments_1 df beta =
           Inr (let present = filter (\<lambda>v. v \<noteq> NaN) (map (row_moment beta) (zip y x))
                in if present = [] then NaN
                   else fdiv_count (foldl fadd (Fin 0) present) (length present))"
    unfolding rows series_mean_def np_mean_def np_sum_def Let_def ..
  have "get_moments_1 df beta =
              Inr (if zip ys xs = [] then NaN
                   else Fin (sum_list (map (\<lambda>(yi, xi). xi * (yi - (1 + beta * xi))) (zip ys xs))
                             / real (length (zip ys xs))))"
    if "y = map Fin ys \<and> x = map Fin xs" for ys xs
  proof -
    define zs where "zs = map (\<lambda>(yi, xi). xi * (yi - (1 + beta * xi))) (zip ys xs)"
    have "map (row_moment beta) (zip y x) = map Fin zs"
      using that unfolding zs_def by (simp only: row_moment_Fin)
    then have "get_moments_1 df beta = Inr (np_mean (map Fin zs))"
      by (simp only: rows series_mean_Fin)
    also have "np_mean (map Fin zs) =
        (if zs = [] then NaN else Fin (sum_list zs / real (length zs)))"
      by (rule np_mean_Fin)
    also have "zs = [] \<longleftrightarrow> zip ys xs = []"
      by (simp only: zs_def map_is_Nil_conv)
    also have "length zs = length (zip ys xs)"
      by (simp only: zs_def length_map)
    finally show ?thesis unfolding zs_def .
  qed
  with present show ?thesis by blast
qed

theorem get_moments_1_mean_witness:
  "df_getitem example_frame_gap ''Y'' = Inr [NaN, Fin 5] \<and>
   df_getitem example_frame_gap ''X'' = Inr [Fin 1, Fin 2] \<and>
   get_moments_1 example_frame_gap 1 = Inr (Fin 4) \<and>
   get_moments_1 example_frame_1 1 = Inr (Fin (5 / 2))"
proof -
  have y: "df_getitem example_frame_gap ''Y'' = Inr [NaN, Fin 5]"
    by (simp add: df_getitem_def example_frame_gap_def)
  have x: "df_getitem example_frame_gap ''X'' = Inr [Fin 1, Fin 2]"
    by (simp add: df_getitem_def example_frame_gap_def)
  note gap = get_moments_1_mean [OF y x, of 1, THEN conjunct1]
  have y1: "df_getitem example_frame_1 ''Y'' = Inr [Fin 3, Fin 5]"
    by (simp add: df_getitem_def example_frame_1_def)
  have x1: "df_getitem example_frame_1 ''X'' = Inr [Fin 1, Fin 2]"
    by (simp add: df_getitem_def example_frame_1_def)
  have fin: "[Fin 3, Fin 5] = map Fin [3, 5] \<and> [Fin 1, Fin 2] = map Fin [1, 2]"
    by simp
  note numbers = get_moments_1_mean [OF y1 x1, of 1, THEN conjunct2, rule_format, OF fin]
  have "get_moments_1 example_frame_gap 1 = Inr (Fin 4)"
    using gap by (simp add: row_moment_def fsub_def)
  moreover have "get_moments_1 example_frame_1 1 = Inr (Fin (5 / 2))"
    using numbers by simp
  ultimately show ?thesis using y x by simp
qed

text \<open>
  The claim C2 as it was stated (the mean over all rows, for every dataframe) fails on the
  frame with the rows \<open>(Y, X) = (NaN, 1)\<close> and \<open>(5, 2)\<close> at \<open>beta = 1\<close>: the values of
  \<open>X * (Y - (1 + beta * X))\<close> are NaN and 4, their mean over both rows is NaN, and
  \<^verbatim>\<open>get_moments\<close> returns 4, the value of the second row alone.
\<close>

theorem get_moments_1_leaves_row_out:
  "map (row_moment 1) (zip [NaN, Fin 5] [Fin 1, Fin 2]) = [NaN, Fin 4] \<and>
   np_mean [NaN, Fin 4] = NaN \<and>
   get_moments_1 example_frame_gap 1 = Inr (Fin 4)"
  by (simp add: get_moments_1_def df_getitem_def example_frame_gap_def Let_def
      series_mean_def np_mean_def np_sum_def fsub_def row_moment_def)

text \<open>
  Claim C6. For every dataframe and every \<open>beta\<close>, the \<^verbatim>\<open>criterion_function_gmm\<close> of
  Example 1 is the square of the moment \<open>m\<close> that \<^verbatim>\<open>get_moments\<close> returns, which is the
  quadratic form \<open>m * W * m\<close> of the one-entry moment vector for the weighting matrix
  \<open>W = np_identity 1\<close>. When \<^verbatim>\<open>get_moments\<close> raises, the criterion raises the same error.
\<close>

theorem gmm_1_quadratic_form:
  "criterion_function_gmm_1 beta df =
     and_then (get_moments_1 df beta) (\<lambda>m. Inr (np_square m)) \<and>
   criterion_function_gmm_1 beta df =
     and_then (get_moments_1 df beta) (\<lambda>m. Inr (quadratic_form [m] (np_identity 1)))"
  by (simp add: criterion_function_gmm_1_def np_identity_def quadratic_form_1 np_square_def)

theorem gmm_1_quadratic_form_witness:
  "criterion_function_gmm_1 1 example_frame_1 = Inr (Fin (25 / 4))"
proof -
  have "get_moments_1 example_frame_1 1 = Inr (Fin (5 / 2))"
    by (simp add: get_moments_1_def df_getitem_def example_frame_1_def Let_def
        series_mean_def np_mean_def np_sum_def fsub_def)
  then show ?thesis
    using gmm_1_quadratic_form [of 1 example_frame_1]
    by (simp add: np_square_def)
qed

lemma np_dot_vm_2x2:
  "np_dot_vm [m0, m1] [[a, b], [c, d]] =
     Inr [fadd (fmul m0 (Fin a)) (fmul m1 (Fin c)), fadd (fmul m0 (Fin b)) (fmul m1 (Fin d))]"
  by (simp add: np_dot_vm_def ncols_def upt_2)

lemma quadratic_form_2x2:
  "quadratic_form [m0, m1] [[a, b], [c, d]] =
     fadd (fmul (fadd (fmul m0 (Fin a)) (fmul m1 (Fin c))) m0)
          (fmul (fadd (fmul m0 (Fin b)) (fmul m1 (Fin d))) m1)"
  by (simp add: quadratic_form_def upt_2)

lemma quadratic_form_expanded_2x2:
  "quadratic_form_expanded [m0, m1] [[a, b], [c, d]] =
     np_sum [fmul (fmul m0 (Fin a)) m0, fmul (fmul m0 (Fin b)) m1,
             fmul (fmul m1 (Fin c)) m0, fmul (fmul m1 (Fin d)) m1]"
  by (simp add: quadratic_form_expanded_def upt_2)

lemma dot_is_quadratic_form_2x2:
  "and_then (np_dot_vm [m0, m1] [[a, b], [c, d]]) (\<lambda>t. np_dot_vv t [m0, m1]) =
     Inr (quadratic_form [m0, m1] [[a, b], [c, d]])"
  by (simp add: np_dot_vm_2x2 quadratic_form_2x2 np_dot_vv_def)

lemma quadratic_form_multiplied_out:
  assumes "no_inf m0" and "no_inf m1"
  shows "quadratic_form [m0, m1] [[a, b], [c, d]] =
         quadratic_form_expanded [m0, m1] [[a, b], [c, d]]"
  unfolding quadratic_form_2x2 quadratic_form_expanded_2x2
  using assms by (elim no_inf_cases) (simp_all add: np_sum_def algebra_simps)

lemma two_by_two:
  assumes "length W = 2" and "list_all (\<lambda>row. length row = 2) W"
  obtains a b c d where "W = [[a, b], [c, d]]"
proof -
  from assms(1) obtain r0 r1 where W: "W = [r0, r1]"
    by (cases W; cases "tl W") (auto simp: length_Suc_conv)
  with assms(2) have "length r0 = 2" "length r1 = 2" by simp_all
  then obtain a b c d where "r0 = [a, b]" "r1 = [c, d]"
    by (auto simp: numeral_2_eq_2 length_Suc_conv)
  with W show ?thesis using that by simp
qed

lemma get_moments_2_value:
  assumes "df_getitem df ''Y'' = Inr y" and "df_getitem df ''X'' = Inr x"
    and "df_getitem df ''Z1'' = Inr z1" and "df_getitem df ''Z2'' = Inr z2"
  shows "get_moments_2 df beta =
     Inr [series_mean (map2 fmul z1 (map2 fsub y (map (\<lambda>v. fadd (Fin 1) (fmul (Fin beta) v)) x))),
          series_mean (map2 fmul z2 (map2 fsub y (map (\<lambda>v. fadd (Fin 1) (fmul (Fin beta) v)) x)))]"
  using assms by (simp add: get_moments_2_def Let_def)

text \<open>
  Claim C1. For every dataframe with columns \<open>Y\<close>, \<open>X\<close>, \<open>Z1\<close>, \<open>Z2\<close>, every \<open>beta\<close> and
  every 2x2 weighting matrix \<open>W\<close>, the \<^verbatim>\<open>criterion_function_gmm\<close> of Example 2 returns the
  quadratic form \<open>m\<^sup>T W m\<close>, where \<open>m\<close> is the moment vector
  \<open>[mean(Z1 * r), mean(Z2 * r)]\<close> that the \<^verbatim>\<open>get_moments\<close> of Example 2 returns, with the
  residuals \<open>r = Y - (1 + beta * X)\<close>; without a matrix, \<open>W\<close> is the 2x2 identity. When no
  entry of the four columns is infinite, the form equals its multiplied-out sum of the
  four products \<open>m\<^sub>i * W\<^sub>i\<^sub>j * m\<^sub>j\<close>.
\<close>

theorem gmm_2_quadratic_form:
  assumes "df_getitem df ''Y'' = Inr y" and "df_getitem df ''X'' = Inr x"
    and "df_getitem df ''Z1'' = Inr z1" and "df_getitem df ''Z2'' = Inr z2"
    and "length W = 2" and "list_all (\<lambda>row. length row = 2) W"
    and "r = map2 fsub y (map (\<lambda>v. fadd (Fin 1) (fmul (Fin beta) v)) x)"
    and "m = [series_mean (map2 fmul z1 r), series_mean (map2 fmul z2 r)]"
  shows "get_moments_2 df beta = Inr m \<and>
         criterion_function_gmm_2 beta df W = Inr (quadratic_form m W) \<and>
         criterion_function_gmm_2_default beta df = Inr (quadratic_form m (np_identity 2)) \<and>
         (list_all no_inf y \<and> list_all no_inf x \<and> list_all no_inf z1 \<and> list_all no_inf z2 \<longrightarrow>
            quadratic_form m W = quadratic_form_expanded m W)"
proof -
  have gm: "get_moments_2 df beta = Inr m"
    unfolding assms(8) assms(7) by (rule get_moments_2_value) (rule assms)+
  obtain a b c d where W: "W = [[a, b], [c, d]]"
    using assms(5,6) by (rule two_by_two)
  have crit: "criterion_function_gmm_2 beta df V = Inr (quadratic_form m V)"
    if "V = [[a', b'], [c', d']]" for V a' b' c' d'
    unfolding criterion_function_gmm_2_def gm that assms(8)
    by (simp add: dot_is_quadratic_form_2x2)
  have I: "np_identity 2 = [[1, 0], [0, 1]]"
    by (simp add: np_identity_def upt_2)
  have expanded: "quadratic_form m W = quadratic_form_expanded m W"
    if h: "list_all no_inf y \<and> list_all no_inf x \<and> list_all no_inf z1 \<and> list_all no_inf z2"
  proof -
    have r: "list_all no_inf r"
      unfolding assms(7) using h by (intro residuals_no_inf) simp_all
    have m0: "no_inf (series_mean (map2 fmul z1 r))"
      using h r by (intro no_inf_series_mean no_inf_map2 no_inf_fmul) simp_all
    have m1: "no_inf (series_mean (map2 fmul z2 r))"
      using h r by (intro no_inf_series_mean no_inf_map2 no_inf_fmul) simp_all
    show ?thesis
      unfolding W assms(8) using m0 m1 by (rule quadratic_form_multiplied_out)
  qed
  show ?thesis
    using gm crit [OF W] crit [OF I] expanded
    by (simp add: criterion_function_gmm_2_default_def)
qed

theorem gmm_2_quadratic_form_witness:
  "get_moments_2 example_frame_2 1 = Inr [Fin (1 / 2), Fin 1] \<and>
   criterion_function_gmm_2 1 example_frame_2 [[2, 0], [0, 3]] = Inr (Fin (7 / 2)) \<and>
   criterion_function_gmm_2_default 1 example_frame_2 = Inr (Fin (5 / 4))"
proof -
  have y: "df_getitem example_frame_2 ''Y'' = Inr [Fin 3, Fin 5]"
    and x: "df_getitem example_frame_2 ''X'' = Inr [Fin 1, Fin 2]"
    and z1: "df_getitem example_frame_2 ''Z1'' = Inr [Fin 1, Fin 0]"
    and z2: "df_getitem example_frame_2 ''Z2'' = Inr [Fin 0, Fin 1]"
    by (simp_all add: df_getitem_def example_frame_2_def)
  have I: "np_identity 2 = [[1, 0], [0, 1]]"
    by (simp add: np_identity_def upt_2)
  have r: "[Fin 1, Fin 2] =
      map2 fsub [Fin 3, Fin 5] (map (\<lambda>v. fadd (Fin 1) (fmul (Fin 1) v)) [Fin 1, Fin 2])"
    by (simp add: fsub_def)
  have m: "[Fin (1 / 2), Fin 1] =
             [series_mean (map2 fmul [Fin 1, Fin 0] [Fin 1, Fin 2]),
              series_mean (map2 fmul [Fin 0, Fin 1] [Fin 1, Fin 2])]"
    by (simp add: series_mean_def np_mean_def)
  have "get_moments_2 example_frame_2 1 = Inr [Fin (1 / 2), Fin 1] \<and>
        criterion_function_gmm_2 1 example_frame_2 [[2, 0], [0, 3]] =
          Inr (quadratic_form [Fin (1 / 2), Fin 1] [[2, 0], [0, 3]]) \<and>
        criterion_function_gmm_2_default 1 example_frame_2 =
          Inr (quadratic_form [Fin (1 / 2), Fin 1] (np_identity 2)) \<and>
        (list_all no_inf [Fin 3, Fin 5] \<and> list_all no_inf [Fin 1, Fin 2] \<and>
         list_all no_inf [Fin 1, Fin 0] \<and> list_all no_inf [Fin 0, Fin 1] \<longrightarrow>
           quadratic_form [Fin (1 / 2), Fin 1] [[2, 0], [0, 3]] =
           quadratic_form_expanded [Fin (1 / 2), Fin 1] [[2, 0], [0, 3]])"
    by (rule gmm_2_quadratic_form [OF y x z1 z2 _ _ r m]) simp_all
  then show ?thesis
    by (simp add: I quadratic_form_2x2)
qed

section \<open>The MLE criterion and its clip\<close>

lemma sqrt_2pi_ge_1: "1 \<le> sqrt (2 * pi)"
proof -
  have "1 \<le> 2 * pi" using pi_ge_two by simp
  then show ?thesis by simp
qed

lemma ln_sqrt_2pi_bounds: "0 \<le> ln (sqrt (2 * pi))" "ln (sqrt (2 * pi)) \<le> 2"
proof -
  show "0 \<le> ln (sqrt (2 * pi))" using sqrt_2pi_ge_1 by simp
  have "sqrt (2 * pi) \<le> sqrt 9" using pi_less_4 by (intro real_sqrt_le_mono) simp
  also have "sqrt 9 = 3" by (rule real_sqrt_unique) simp_all
  finally have le: "sqrt (2 * pi) \<le> 3" .
  have "ln (sqrt (2 * pi)) \<le> sqrt (2 * pi) - 1"
    using sqrt_2pi_ge_1 by (intro ln_le_minus_one) simp
  with le show "ln (sqrt (2 * pi)) \<le> 2" by simp
qed

text \<open>
  Bounds on \<open>ln 2\<close>, from \<open>(5221 / 5000)\<^sup>1\<^sup>6 \<le> 2 \<le> (437 / 400)\<^sup>8\<close> and
  \<open>1 - 1 / c \<le> ln c \<le> c - 1\<close>.
\<close>

lemma ln_2_bounds: "677 / 1000 \<le> ln (2 :: real)" "ln (2 :: real) \<le> 37 / 50"
proof -
  have "(5221 / 5000 :: real) ^ 16 \<le> 2"
    by (simp add: power_divide)
  then have "ln ((5221 / 5000 :: real) ^ 16) \<le> ln 2"
    by (intro ln_mono) simp_all
  then have low: "16 * ln (5221 / 5000 :: real) \<le> ln 2"
    by (simp only: ln_realpow of_nat_numeral)
  have "ln (inverse (5221 / 5000 :: real)) \<le> inverse (5221 / 5000) - 1"
    by (intro ln_le_minus_one) simp
  then have "221 / 5221 \<le> ln (5221 / 5000 :: real)"
    by (simp only: ln_inverse) simp
  with low show "677 / 1000 \<le> ln (2 :: real)" by simp
  have "(2 :: real) \<le> (437 / 400) ^ 8"
    by (simp add: power_divide)
  then have "ln (2 :: real) \<le> ln ((437 / 400) ^ 8)"
    by (intro ln_mono) simp_all
  then have up: "ln (2 :: real) \<le> 8 * ln (437 / 400 :: real)"
    by (simp only: ln_realpow of_nat_numeral)
  have "ln (437 / 400 :: real) \<le> 437 / 400 - 1"
    by (intro ln_le_minus_one) simp
  with up show "ln (2 :: real) \<le> 37 / 50" by simp
qed

text \<open>
  The density underflows exactly when its logarithm is below the logarithm of
  \<^verbatim>\<open>2**-1075\<close>.
\<close>

lemma density_pos: "0 < exp (- (x\<^sup>2) / 2) / sqrt (2 * pi)"
  using sqrt_2pi_ge_1 by simp

lemma ln_density:
  "ln (exp (- (x\<^sup>2) / 2) / sqrt (2 * pi)) = - (x\<^sup>2) / 2 - ln (sqrt (2 * pi))"
proof -
  have c: "0 < sqrt (2 * pi)" using sqrt_2pi_ge_1 by simp
  then show ?thesis by (simp add: ln_div)
qed

lemma ln_threshold: "ln (1 / 2 ^ 1075 :: real) = - (1075 * ln 2)"
proof -
  have "ln (1 / 2 ^ 1075 :: real) = ln (inverse (2 ^ 1075))"
    by (simp only: inverse_eq_divide)
  also have "\<dots> = - ln ((2 :: real) ^ 1075)"
    by (rule ln_inverse)
  also have "ln ((2 :: real) ^ 1075) = real 1075 * ln 2"
    by (rule ln_realpow)
  finally show ?thesis by simp
qed

lemma density_underflows_iff:
  "exp (- (x\<^sup>2) / 2) / sqrt (2 * pi) < 1 / 2 ^ 1075 \<longleftrightarrow>
   - (x\<^sup>2) / 2 - ln (sqrt (2 * pi)) < - (1075 * ln 2)"
proof -
  have t: "0 < (1 / 2 ^ 1075 :: real)" by (simp only: zero_less_divide_1_iff zero_less_power zero_less_numeral)
  have "exp (- (x\<^sup>2) / 2) / sqrt (2 * pi) < 1 / 2 ^ 1075 \<longleftrightarrow>
        ln (exp (- (x\<^sup>2) / 2) / sqrt (2 * pi)) < ln (1 / 2 ^ 1075 :: real)"
    using density_pos [of x] t by (simp only: ln_less_cancel_iff)
  then show ?thesis by (simp only: ln_density ln_threshold)
qed

lemma norm_pdf_Fin:
  "norm_pdf (Fin x) =
     (if - (x\<^sup>2) / 2 - ln (sqrt (2 * pi)) < - (1075 * ln 2) then Fin 0
      else Fin (exp (- (x\<^sup>2) / 2) / sqrt (2 * pi)))"
proof -
  have "\<bar>exp (- (x\<^sup>2) / 2) / sqrt (2 * pi)\<bar> = exp (- (x\<^sup>2) / 2) / sqrt (2 * pi)"
    using density_pos [of x] by (simp only: abs_of_pos)
  then show ?thesis
    by (simp only: norm_pdf.simps underflow_def density_underflows_iff if_distrib [of Fin])
qed

lemma log_pdf_Fin:
  "np_log (norm_pdf (Fin x)) =
     (if - (x\<^sup>2) / 2 - ln (sqrt (2 * pi)) < - (1075 * ln 2) then NInf
      else Fin (- (x\<^sup>2) / 2 - ln (sqrt (2 * pi))))"
proof (cases "- (x\<^sup>2) / 2 - ln (sqrt (2 * pi)) < - (1075 * ln 2)")
  case True
  then show ?thesis by (simp only: norm_pdf_Fin if_True) simp
next
  case False
  then have "np_log (norm_pdf (Fin x)) = np_log (Fin (exp (- (x\<^sup>2) / 2) / sqrt (2 * pi)))"
    by (simp only: norm_pdf_Fin if_False)
  also have "\<dots> = Fin (ln (exp (- (x\<^sup>2) / 2) / sqrt (2 * pi)))"
    using density_pos [of x] by (simp only: np_log.simps if_True)
  finally show ?thesis using False by (simp only: ln_density if_False)
qed

lemma clipped_log_density_Fin:
  "clipped_log_density (Fin x) =
     (if - (x\<^sup>2) / 2 - ln (sqrt (2 * pi)) < - (1075 * ln 2) then Fin (- 10000000)
      else Fin (max (- (x\<^sup>2) / 2 - ln (sqrt (2 * pi))) (- 10000000)))"
  by (simp only: clipped_log_density_def log_pdf_Fin if_distrib [of "\<lambda>v. np_clip_min v (- 10000000)"]
      np_clip_min.simps)

lemma clipped_log_density_range:
  assumes "v \<noteq> NaN"
  shows "\<exists>t. clipped_log_density v = Fin t \<and> - 10000000 \<le> t \<and> t \<le> 0"
proof (cases v)
  case (Fin r)
  have "0 \<le> r\<^sup>2 / 2" by simp
  then have "- (r\<^sup>2) / 2 - ln (sqrt (2 * pi)) \<le> 0"
    using ln_sqrt_2pi_bounds(1) by linarith
  then have "max (- (r\<^sup>2) / 2 - ln (sqrt (2 * pi))) (- 10000000) \<le> 0"
    "- 10000000 \<le> max (- (r\<^sup>2) / 2 - ln (sqrt (2 * pi))) (- 10000000)"
    by simp_all
  then show ?thesis
    unfolding Fin clipped_log_density_Fin by (simp del: max.bounded_iff)
qed (use assms in \<open>simp_all add: clipped_log_density_def\<close>)

text \<open>Up to 38 in absolute value the density does not underflow; from 40 on it does.\<close>

lemma density_kept:
  assumes "\<bar>x\<bar> \<le> 38"
  shows "\<not> - (x\<^sup>2) / 2 - ln (sqrt (2 * pi)) < - (1075 * ln 2)"
proof -
  from assms have "\<bar>x\<bar> \<le> \<bar>38 :: real\<bar>" by simp
  then have "x\<^sup>2 \<le> (38 :: real)\<^sup>2" by (rule abs_le_square_iff [THEN iffD1])
  then have "x\<^sup>2 / 2 \<le> 722" by (simp add: power2_eq_square)
  moreover have "727 \<le> 1075 * ln (2 :: real)"
    using ln_2_bounds(1) by simp
  ultimately show ?thesis
    using ln_sqrt_2pi_bounds(2) by linarith
qed

lemma density_lost:
  assumes "40 \<le> \<bar>x\<bar>"
  shows "- (x\<^sup>2) / 2 - ln (sqrt (2 * pi)) < - (1075 * ln 2)"
proof -
  from assms have "\<bar>40 :: real\<bar> \<le> \<bar>x\<bar>" by simp
  then have "(40 :: real)\<^sup>2 \<le> x\<^sup>2" by (rule abs_le_square_iff [THEN iffD1])
  then have "800 \<le> x\<^sup>2 / 2" by (simp add: power2_eq_square)
  moreover have "1075 * ln (2 :: real) \<le> 796"
    using ln_2_bounds(2) by simp
  ultimately show ?thesis
    using ln_sqrt_2pi_bounds(1) by linarith
qed

lemma clipped_list_range:
  assumes "NaN \<notin> set r"
  shows "\<exists>ts. map clipped_log_density r = map Fin ts \<and>
              list_all (\<lambda>t. - 10000000 \<le> t \<and> t \<le> 0) ts"
  using assms
proof (induction r)
  case Nil
  then show ?case by simp
next
  case (Cons v r)
  then obtain ts where ts: "map clipped_log_density r = map Fin ts"
    "list_all (\<lambda>t. - 10000000 \<le> t \<and> t \<le> 0) ts" by auto
  from Cons.prems have "v \<noteq> NaN" by auto
  then obtain t where t: "clipped_log_density v = Fin t" "- 10000000 \<le> t" "t \<le> 0"
    using clipped_log_density_range by blast
  have "map clipped_log_density (v # r) = map Fin (t # ts)"
    using ts(1) t(1) by simp
  moreover have "list_all (\<lambda>t. - 10000000 \<le> t \<and> t \<le> 0) (t # ts)"
    using ts(2) t(2,3) by simp
  ultimately show ?case by blast
qed

lemma sum_list_bounds:
  fixes ts :: "real list"
  assumes "list_all (\<lambda>t. lo \<le> t \<and> t \<le> hi) ts"
  shows "lo * real (length ts) \<le> sum_list ts \<and> sum_list ts \<le> hi * real (length ts)"
  using assms by (induction ts) (auto simp: algebra_simps)

lemma mean_bounds:
  fixes ts :: "real list"
  assumes "list_all (\<lambda>t. lo \<le> t \<and> t \<le> hi) ts" and "ts \<noteq> []"
  shows "lo \<le> sum_list ts / real (length ts) \<and> sum_list ts / real (length ts) \<le> hi"
proof -
  have n: "0 < real (length ts)" using assms(2) by simp
  from sum_list_bounds [OF assms(1)] n show ?thesis
    by (simp add: field_simps)
qed

lemma mle_as_clipped_mean:
  "criterion_function_mle beta df =
     and_then (get_residuals df beta) (\<lambda>r. Inr (fneg (np_mean (map clipped_log_density r))))"
proof -
  have "clipped_log_density = (\<lambda>v. np_clip_min (np_log (norm_pdf v)) (- 10000000))"
    by (rule ext) (simp add: clipped_log_density_def)
  then show ?thesis
    by (simp add: criterion_function_mle_def Let_def comp_def)
qed

lemma log_density_unclipped:
  assumes "\<bar>x\<bar> \<le> 38"
  shows "clipped_log_density (Fin x) = Fin (- (x\<^sup>2) / 2 - ln (sqrt (2 * pi)))"
    and "np_log (norm_pdf (Fin x)) = Fin (- (x\<^sup>2) / 2 - ln (sqrt (2 * pi)))"
proof -
  note kept = density_kept [OF assms]
  from assms have "\<bar>x\<bar> \<le> \<bar>38 :: real\<bar>" by simp
  then have "x\<^sup>2 \<le> (38 :: real)\<^sup>2" by (rule abs_le_square_iff [THEN iffD1])
  then have "x\<^sup>2 / 2 \<le> 722" by (simp add: power2_eq_square)
  then have "- 10000000 \<le> - (x\<^sup>2) / 2 - ln (sqrt (2 * pi))"
    using ln_sqrt_2pi_bounds(2) by linarith
  then have "max (- (x\<^sup>2) / 2 - ln (sqrt (2 * pi))) (- 10000000) =
      - (x\<^sup>2) / 2 - ln (sqrt (2 * pi))"
    by (rule max_absorb1)
  then show "clipped_log_density (Fin x) = Fin (- (x\<^sup>2) / 2 - ln (sqrt (2 * pi)))"
    using kept by (simp only: clipped_log_density_Fin if_False)
  show "np_log (norm_pdf (Fin x)) = Fin (- (x\<^sup>2) / 2 - ln (sqrt (2 * pi)))"
    using kept by (simp only: log_pdf_Fin if_False)
qed

lemma clipped_map_unclipped:
  assumes "list_all (\<lambda>v. \<exists>x. v = Fin x \<and> \<bar>x\<bar> \<le> 38) r"
  shows "map clipped_log_density r = map np_log (map norm_pdf r)"
  using assms
proof (induction r)
  case Nil
  then show ?case by simp
next
  case (Cons v r)
  then obtain x where "v = Fin x" "\<bar>x\<bar> \<le> 38" by auto
  then have "clipped_log_density v = np_log (norm_pdf v)"
    by (simp only: log_density_unclipped)
  with Cons show ?case by simp
qed

lemma clipped_far:
  assumes "40 \<le> \<bar>x\<bar>"
  shows "clipped_log_density (Fin x) = Fin (- 10000000)" and "np_log (norm_pdf (Fin x)) = NInf"
  using density_lost [OF assms]
  by (simp_all only: clipped_log_density_Fin log_pdf_Fin if_True)

lemma clipped_map_far:
  assumes "list_all (\<lambda>v. \<exists>x. v = Fin x \<and> 40 \<le> \<bar>x\<bar>) r"
  shows "map clipped_log_density r = map Fin (replicate (length r) (- 10000000))"
  using assms
proof (induction r)
  case Nil
  then show ?case by simp
next
  case (Cons v r)
  then obtain x where "v = Fin x" "40 \<le> \<bar>x\<bar>" by auto
  then have "clipped_log_density v = Fin (- 10000000)"
    by (simp only: clipped_far)
  with Cons show ?case by simp
qed

text \<open>
  Claim C3, as amended. For every dataframe and every \<open>beta\<close>,
  \<^verbatim>\<open>criterion_function_mle\<close> returns the negative mean of the log normal density of the
  residuals \<open>Y - (1 + beta * X)\<close>, each term clipped from below at \<open>-10e6\<close>: the clip is
  the one guard the function applies, and an error of \<^verbatim>\<open>get_residuals\<close> is passed on as it
  is. When every residual is a number of absolute value at most 38, no density underflows,
  the clip changes nothing and the result is the negative mean of the unmodified log
  density. A residual of absolute value 40 or more has the density zero and enters as
  \<open>-10e6\<close>; when every residual of a frame with a row is such, the result is \<open>10e6\<close>.
\<close>

theorem mle_is_clipped_mean:
  "criterion_function_mle beta df =
     and_then (get_residuals df beta) (\<lambda>r. Inr (fneg (np_mean (map clipped_log_density r)))) \<and>
   (get_residuals df beta = Inr r \<and> list_all (\<lambda>v. \<exists>x. v = Fin x \<and> \<bar>x\<bar> \<le> 38) r \<longrightarrow>
      criterion_function_mle beta df = criterion_function_mle_unclipped beta df) \<and>
   (get_residuals df beta = Inr r \<and> r \<noteq> [] \<and> list_all (\<lambda>v. \<exists>x. v = Fin x \<and> 40 \<le> \<bar>x\<bar>) r \<longrightarrow>
      criterion_function_mle beta df = Inr (Fin 10000000))"
proof (intro conjI impI)
  show "criterion_function_mle beta df =
     and_then (get_residuals df beta) (\<lambda>r. Inr (fneg (np_mean (map clipped_log_density r))))"
    by (rule mle_as_clipped_mean)
next
  assume h: "get_residuals df beta = Inr r \<and> list_all (\<lambda>v. \<exists>x. v = Fin x \<and> \<bar>x\<bar> \<le> 38) r"
  then have m: "map clipped_log_density r = map np_log (map norm_pdf r)"
    by (intro clipped_map_unclipped) simp
  from h have r: "get_residuals df beta = Inr r" by simp
  show "criterion_function_mle beta df = criterion_function_mle_unclipped beta df"
    by (simp only: mle_as_clipped_mean criterion_function_mle_unclipped_def r and_then_simps m)
next
  assume h: "get_residuals df beta = Inr r \<and> r \<noteq> [] \<and>
    list_all (\<lambda>v. \<exists>x. v = Fin x \<and> 40 \<le> \<bar>x\<bar>) r"
  then have m: "map clipped_log_density r = map Fin (replicate (length r) (- 10000000))"
    by (intro clipped_map_far) simp
  from h have r: "get_residuals df beta = Inr r" and ne: "r \<noteq> []" by simp_all
  have "np_mean (map Fin (replicate (length r) (- 10000000))) = Fin (- 10000000)"
    using ne by (simp only: np_mean_Fin) (simp add: sum_list_replicate)
  then show "criterion_function_mle beta df = Inr (Fin 10000000)"
    by (simp only: mle_as_clipped_mean r m and_then_simps fneg.simps) simp
qed

theorem mle_is_clipped_mean_witness:
  "get_residuals example_frame_1 1 = Inr [Fin 1, Fin 2] \<and>
   criterion_function_mle 1 example_frame_1 = criterion_function_mle_unclipped 1 example_frame_1 \<and>
   criterion_function_mle 1 example_frame_1 = Inr (Fin (5 / 4 + ln (sqrt (2 * pi)))) \<and>
   get_residuals example_frame_far 0 = Inr [Fin 4999] \<and>
   criterion_function_mle 0 example_frame_far = Inr (Fin 10000000)"
proof -
  have r: "get_residuals example_frame_1 1 = Inr [Fin 1, Fin 2]"
    by (simp add: get_residuals_def df_getitem_def example_frame_1_def fsub_def)
  have b: "list_all (\<lambda>v. \<exists>x. v = Fin x \<and> \<bar>x\<bar> \<le> 38) [Fin 1, Fin 2]"
    by simp
  have eq: "criterion_function_mle 1 example_frame_1 =
            criterion_function_mle_unclipped 1 example_frame_1"
    using mle_is_clipped_mean [of 1 example_frame_1 "[Fin 1, Fin 2]", THEN conjunct2,
        THEN conjunct1] r b by blast
  have l1: "np_log (norm_pdf (Fin 1)) = Fin (- (1 / 2) - ln (sqrt (2 * pi)))"
    using log_density_unclipped(2) [of 1] by simp
  have l2: "np_log (norm_pdf (Fin 2)) = Fin (- 2 - ln (sqrt (2 * pi)))"
    using log_density_unclipped(2) [of 2] by simp
  have "criterion_function_mle_unclipped 1 example_frame_1 =
          Inr (Fin (5 / 4 + ln (sqrt (2 * pi))))"
    by (simp add: criterion_function_mle_unclipped_def r l1 l2 np_mean_def np_sum_def
        del: norm_pdf.simps np_log.simps) (simp add: field_simps)
  with eq have one: "criterion_function_mle 1 example_frame_1 =
      Inr (Fin (5 / 4 + ln (sqrt (2 * pi))))"
    by simp
  have rf: "get_residuals example_frame_far 0 = Inr [Fin 4999]"
    by (simp add: get_residuals_def df_getitem_def example_frame_far_def fsub_def)
  have bf: "[Fin 4999] \<noteq> [] \<and> list_all (\<lambda>v. \<exists>x. v = Fin x \<and> 40 \<le> \<bar>x\<bar>) [Fin 4999]"
    by simp
  have far: "criterion_function_mle 0 example_frame_far = Inr (Fin 10000000)"
    using mle_is_clipped_mean [of 0 example_frame_far "[Fin 4999]", THEN conjunct2,
        THEN conjunct2] rf bf by blast
  show ?thesis by (intro conjI r eq one rf far)
qed

text \<open>
  The claim C3 as it was stated (no clipping alters the log-likelihood values) fails on the
  frame with the one row \<open>Y = 5000\<close>, \<open>X = 0\<close> at \<open>beta = 0\<close>: the residual is 4999, its
  density underflows to zero, the log density is minus infinity, and the criterion returns
  \<open>10e6\<close> where the negative mean of the unmodified log density is infinite.
\<close>

theorem mle_clips_far_residual:
  "get_residuals example_frame_far 0 = Inr [Fin 4999] \<and>
   map np_log (map norm_pdf [Fin 4999]) = [NInf] \<and>
   criterion_function_mle 0 example_frame_far = Inr (Fin 10000000) \<and>
   criterion_function_mle_unclipped 0 example_frame_far = Inr PInf \<and>
   criterion_function_mle 0 example_frame_far \<noteq>
     criterion_function_mle_unclipped 0 example_frame_far"
proof -
  have r: "get_residuals example_frame_far 0 = Inr [Fin 4999]"
    by (simp add: get_residuals_def df_getitem_def example_frame_far_def fsub_def)
  have far: "40 \<le> \<bar>4999 :: real\<bar>" by simp
  note lp = clipped_far(2) [OF far]
  note cl = clipped_far(1) [OF far]
  have m: "criterion_function_mle 0 example_frame_far = Inr (Fin 10000000)"
    by (simp add: mle_as_clipped_mean r cl del: norm_pdf.simps np_log.simps)
  have u: "criterion_function_mle_unclipped 0 example_frame_far = Inr PInf"
    by (simp add: criterion_function_mle_unclipped_def r lp np_mean_def np_sum_def
        del: norm_pdf.simps np_log.simps)
  have l: "map np_log (map norm_pdf [Fin 4999]) = [NInf]"
    by (simp add: lp del: norm_pdf.simps np_log.simps)
  from r l m u show ?thesis by simp
qed

text \<open>
  Claim C10, as amended. For every dataframe with at least one row and every \<open>beta\<close> such
  that no residual is NaN, every term entering the MLE criterion is a number not below
  \<open>-10e6\<close> (a density of zero, whose \<^verbatim>\<open>np.log\<close> is minus infinity, enters as \<open>-10e6\<close>), and
  \<^verbatim>\<open>criterion_function_mle\<close> returns a finite value between 0 and \<open>10e6\<close>.
\<close>

theorem mle_clipped_bounded:
  assumes "get_residuals df beta = Inr r" and "r \<noteq> []" and "NaN \<notin> set r"
  shows "list_all (\<lambda>t. \<exists>x. t = Fin x \<and> - 10000000 \<le> x) (map clipped_log_density r) \<and>
         np_log (Fin 0) = NInf \<and>
         np_clip_min (np_log (Fin 0)) (- 10000000) = Fin (- 10000000) \<and>
         (\<exists>v. criterion_function_mle beta df = Inr (Fin v) \<and> 0 \<le> v \<and> v \<le> 10000000)"
proof -
  obtain ts where ts: "map clipped_log_density r = map Fin ts"
    "list_all (\<lambda>t. - 10000000 \<le> t \<and> t \<le> 0) ts"
    using clipped_list_range [OF assms(3)] by blast
  have ne: "ts \<noteq> []" using ts(1) assms(2) by auto
  have terms: "list_all (\<lambda>t. \<exists>x. t = Fin x \<and> - 10000000 \<le> x) (map clipped_log_density r)"
    unfolding ts(1) using ts(2) by (induction ts) simp_all
  have mean: "- 10000000 \<le> sum_list ts / real (length ts) \<and> sum_list ts / real (length ts) \<le> 0"
    using mean_bounds [OF ts(2) ne] .
  have "criterion_function_mle beta df = Inr (Fin (- (sum_list ts / real (length ts))))"
    using ne by (simp add: mle_as_clipped_mean assms(1) ts(1) np_mean_Fin)
  with mean have "\<exists>v. criterion_function_mle beta df = Inr (Fin v) \<and> 0 \<le> v \<and> v \<le> 10000000"
    by simp
  with terms show ?thesis by simp
qed

theorem mle_clipped_bounded_witness:
  "get_residuals example_frame_inf 0 = Inr [PInf, Fin 0] \<and>
   map clipped_log_density [PInf, Fin 0] = [Fin (- 10000000), Fin (- ln (sqrt (2 * pi)))] \<and>
   (\<exists>v. criterion_function_mle 0 example_frame_inf = Inr (Fin v) \<and> 0 \<le> v \<and> v \<le> 10000000)"
proof -
  have r: "get_residuals example_frame_inf 0 = Inr [PInf, Fin 0]"
    by (simp add: get_residuals_def df_getitem_def example_frame_inf_def fsub_def)
  have z: "clipped_log_density (Fin 0) = Fin (- ln (sqrt (2 * pi)))"
    using log_density_unclipped(1) [of 0] by simp
  have i: "clipped_log_density PInf = Fin (- 10000000)"
    by (simp add: clipped_log_density_def)
  have t: "map clipped_log_density [PInf, Fin 0] =
      [Fin (- 10000000), Fin (- ln (sqrt (2 * pi)))]"
    by (simp only: list.map z i)
  show ?thesis
    using mle_clipped_bounded [OF r] r t by simp
qed

text \<open>
  The claim C10 as it was stated (a finite value for every dataframe) fails on the frame
  with no rows, where the mean of no terms is NaN, and on a frame with a missing entry,
  where the clip leaves the NaN term as it is and the mean is NaN.
\<close>

theorem mle_nan_results:
  "criterion_function_mle 0 empty_frame = Inr NaN \<and>
   criterion_function_mle 0 example_frame_missing = Inr NaN"
  by (simp add: criterion_function_mle_def get_residuals_def df_getitem_def empty_frame_def
      example_frame_missing_def np_mean_def np_sum_def fsub_def)

section \<open>The generated samples\<close>

lemma np_random_seed_ok:
  "seed < 2 ^ 32 \<Longrightarrow> np_random_seed seeding seed g = (Inr (), seeding seed)"
  by (simp add: np_random_seed_def)

lemma np_random_seed_refused:
  "\<not> seed < 2 ^ 32 \<Longrightarrow> np_random_seed seeding seed g = (Inl ValueError, g)"
  by (simp add: np_random_seed_def)

lemma transpose_pair:
  "length ys = length xs \<Longrightarrow> transpose [ys, xs] = map2 (\<lambda>y x. [y, x]) ys xs"
proof (induction ys arbitrary: xs)
  case Nil
  then show ?case by simp
next
  case (Cons y ys)
  then obtain x xs' where xs: "xs = x # xs'" by (cases xs) simp_all
  with Cons show ?case by simp
qed

lemma random_sampling_value:
  "random_sampling n scale g = (map (\<lambda>i. Fin (scale * g i)) [0..<n], (\<lambda>i. g (i + n)))"
  by (simp add: random_sampling_def np_random_normal_def)

lemma map2_upt:
  "map2 h (map a [0..<n]) (map b [0..<n]) = map (\<lambda>i. h (a i) (b i)) [0..<n]"
  by (rule map2_map_map)

lemma pd_DataFrame_pairs:
  "pd_DataFrame (map (\<lambda>i. [a i, b i]) [0..<n]) [l0, l1] ([0..<n], name) =
     Inr \<lparr>index_name = name, index = [0..<n],
          cols = [(l0, map a [0..<n]), (l1, map b [0..<n])]\<rparr>"
  by (simp add: pd_DataFrame_def list_all_iff upt_2 comp_def)

lemma get_sample_1_value:
  assumes "seed < 2 ^ 32"
  shows "\<exists>X eps Y.
     X = fst (random_sampling n 10 (seeding seed)) \<and>
     eps = fst (random_sampling n 1 (snd (random_sampling n 10 (seeding seed)))) \<and>
     X = map (\<lambda>i. Fin (10 * seeding seed i)) [0..<n] \<and>
     eps = map (\<lambda>i. Fin (seeding seed (i + n))) [0..<n] \<and>
     Y = map2 fadd (map (\<lambda>v. fadd (Fin 1) (fmul (Fin beta) v)) X) eps \<and>
     Y = map (\<lambda>i. Fin (1 + beta * (10 * seeding seed i) + seeding seed (i + n))) [0..<n] \<and>
     fst (get_sample_1 seeding n beta seed g0) =
       Inr \<lparr>index_name = Some ''Identifier'', index = [0..<n],
            cols = [(''Y'', Y), (''X'', X)]\<rparr> \<and>
     well_formed \<lparr>index_name = Some ''Identifier'', index = [0..<n],
                  cols = [(''Y'', Y), (''X'', X)]\<rparr>"
proof -
  define X where "X = map (\<lambda>i. Fin (10 * seeding seed i)) [0..<n]"
  define eps where "eps = map (\<lambda>i. Fin (seeding seed (i + n))) [0..<n]"
  define Y where "Y = map (\<lambda>i. Fin (1 + beta * (10 * seeding seed i) + seeding seed (i + n))) [0..<n]"
  have x: "X = fst (random_sampling n 10 (seeding seed))"
    by (simp add: X_def random_sampling_value)
  have e: "eps = fst (random_sampling n 1 (snd (random_sampling n 10 (seeding seed))))"
    by (simp add: eps_def random_sampling_value)
  have y: "Y = map2 fadd (map (\<lambda>v. fadd (Fin 1) (fmul (Fin beta) v)) X) eps"
    unfolding X_def eps_def Y_def map_map comp_def map2_upt by simp
  have t: "transpose [Y, X] = map (\<lambda>i. [Fin (1 + beta * (10 * seeding seed i) + seeding seed (i + n)),
                                          Fin (10 * seeding seed i)]) [0..<n]"
    by (simp add: transpose_pair X_def Y_def map2_upt)
  have v: "np_vstack [Y, X] = Inr [Y, X]"
    by (simp add: np_vstack_def X_def Y_def)
  have "fst (get_sample_1 seeding n beta seed g0) =
       Inr \<lparr>index_name = Some ''Identifier'', index = [0..<n],
            cols = [(''Y'', Y), (''X'', X)]\<rparr>"
    unfolding get_sample_1_def np_random_seed_ok [OF assms] prod.case sum.case Let_def
      x [symmetric] random_sampling_value [of n 10] random_sampling_value [of n 1]
    apply (simp only: split_conv fst_conv snd_conv)
    apply (fold X_def)
    apply (simp only: mult_1 )
    apply (fold eps_def)
    apply (simp only: y [symmetric] v and_then_simps t pd_Index_def pd_DataFrame_pairs)
    apply (simp add: X_def Y_def)
    done
  moreover have "well_formed \<lparr>index_name = Some ''Identifier'', index = [0..<n],
                  cols = [(''Y'', Y), (''X'', X)]\<rparr>"
    by (simp add: well_formed_def X_def Y_def)
  ultimately show ?thesis
    using x e y unfolding X_def eps_def Y_def by blast
qed

text \<open>
  Claim C4, as amended. For every \<open>num_agents\<close>, every \<open>beta\<close> and every \<open>seed\<close> from 0
  to \<open>2\<^sup>3\<^sup>2 - 1\<close>, \<^verbatim>\<open>get_sample_1\<close> returns a dataframe with exactly the columns \<open>Y\<close>
  and \<open>X\<close>, in this order, and an index named \<open>Identifier\<close> that holds 0 to
  \<open>num_agents - 1\<close>. Its rows satisfy \<open>Y = 1 + beta * X + eps\<close>, where \<open>X\<close> is the first
  draw of \<open>num_agents\<close> normal variates with scale 10 from the generator seeded with
  \<open>seed\<close>, and \<open>eps\<close> the next draw, with scale 1. That the variates the generator hands
  out are normally distributed is the library's property and not part of the statement.
\<close>

theorem get_sample_1_frame:
  assumes "seed < 2 ^ 32"
  shows "\<exists>X eps Y.
     X = fst (random_sampling n 10 (seeding seed)) \<and>
     eps = fst (random_sampling n 1 (snd (random_sampling n 10 (seeding seed)))) \<and>
     X = map (\<lambda>i. Fin (10 * seeding seed i)) [0..<n] \<and>
     eps = map (\<lambda>i. Fin (seeding seed (i + n))) [0..<n] \<and>
     Y = map2 fadd (map (\<lambda>v. fadd (Fin 1) (fmul (Fin beta) v)) X) eps \<and>
     Y = map (\<lambda>i. Fin (1 + beta * (10 * seeding seed i) + seeding seed (i + n))) [0..<n] \<and>
     fst (get_sample_1 seeding n beta seed g0) =
       Inr \<lparr>index_name = Some ''Identifier'', index = [0..<n],
            cols = [(''Y'', Y), (''X'', X)]\<rparr> \<and>
     well_formed \<lparr>index_name = Some ''Identifier'', index = [0..<n],
                  cols = [(''Y'', Y), (''X'', X)]\<rparr>"
  using assms by (rule get_sample_1_value)

theorem get_sample_1_frame_witness:
  "(3 :: nat) < 2 ^ 32 \<and>
   fst (get_sample_1 (\<lambda>s i. real (s + i)) 2 2 3 (\<lambda>i. 0)) =
     Inr \<lparr>index_name = Some ''Identifier'', index = [0, 1],
          cols = [(''Y'', [Fin 66, Fin 87]), (''X'', [Fin 30, Fin 40])]\<rparr>"
proof -
  have s: "(3 :: nat) < 2 ^ 32" by simp
  show ?thesis
    using get_sample_1_frame [OF s, where n = 2 and seeding = "\<lambda>s i. real (s + i)"
        and beta = 2 and ?g0.0 = "\<lambda>i. 0"]
    by (simp add: upt_2)
qed

text \<open>
  The claim C4 as it was stated (for every seed) fails at the seed \<open>2\<^sup>3\<^sup>2\<close>:
  \<^verbatim>\<open>np.random.seed\<close> refuses it, and \<^verbatim>\<open>get_sample_1\<close> ends with the ValueError and returns
  no dataframe.
\<close>

theorem get_sample_1_refuses_large_seed:
  "get_sample_1 (\<lambda>s i. real (s + i)) 2 2 4294967296 (\<lambda>i. 0) = (Inl ValueError, (\<lambda>i. 0))"
  by (simp add: get_sample_1_def np_random_seed_def)

lemma replicate_as_map: "replicate n c = map (\<lambda>i. c) [0..<n]"
  by (simp add: map_replicate_const)

lemma fill_loop_instruments:
  "fill_loop n [''Z1'', ''Z2'']
     (pd_DataFrame_empty [''Y'', ''X'', ''Z1'', ''Z2''] (pd_Index [0..<n] ''Identifier'')) z =
   (Inr \<lparr>index_name = Some ''Identifier'', index = [0..<n],
         cols = [(''Y'', replicate n NaN), (''X'', replicate n NaN),
                 (''Z1'', map (\<lambda>i. Fin (10 * z i)) [0..<n]),
                 (''Z2'', map (\<lambda>i. Fin (10 * z (i + n))) [0..<n])]\<rparr>,
    (\<lambda>i. z (i + n + n)))"
  by (simp add: pd_DataFrame_empty_def pd_Index_def random_sampling_value df_setitem_def)

lemma sum_axis1_two:
  "df_sum_axis1 \<lparr>index_name = nm, index = [0..<n],
                 cols = [(l0, map (\<lambda>i. Fin (a i)) [0..<n]), (l1, map (\<lambda>i. Fin (b i)) [0..<n])]\<rparr> =
   map (\<lambda>i. Fin (a i + b i)) [0..<n]"
  by (simp add: df_sum_axis1_def replicate_as_map map2_upt nan_add_def)

lemma get_sample_2_value:
  assumes "seed < 2 ^ 32"
  shows "\<exists>Z1 Z2 C nu u X U Y.
     Z1 = map (\<lambda>i. Fin (10 * seeding seed i)) [0..<n] \<and>
     Z2 = map (\<lambda>i. Fin (10 * seeding seed (i + n))) [0..<n] \<and>
     C = map (\<lambda>i. Fin (10 * seeding seed (i + 2 * n))) [0..<n] \<and>
     nu = map (\<lambda>i. Fin (seeding seed (i + 3 * n))) [0..<n] \<and>
     u = map (\<lambda>i. Fin (seeding seed (i + 4 * n))) [0..<n] \<and>
     X = map2 fadd (map2 fadd (map2 fadd C Z1) Z2) nu \<and>
     U = map2 fadd C u \<and>
     Y = map2 fadd (map (\<lambda>v. fadd (Fin 1) (fmul (Fin beta) v)) X) U \<and>
     fst (get_sample_2 seeding n beta seed g0) =
       Inr \<lparr>index_name = Some ''Identifier'', index = [0..<n],
            cols = [(''Y'', Y), (''X'', X), (''Z1'', Z1), (''Z2'', Z2)]\<rparr> \<and>
     well_formed \<lparr>index_name = Some ''Identifier'', index = [0..<n],
                  cols = [(''Y'', Y), (''X'', X), (''Z1'', Z1), (''Z2'', Z2)]\<rparr>"
proof -
  define z where "z = seeding seed"
  define Z1 where "Z1 = map (\<lambda>i. Fin (10 * z i)) [0..<n]"
  define Z2 where "Z2 = map (\<lambda>i. Fin (10 * z (i + n))) [0..<n]"
  define C where "C = map (\<lambda>i. Fin (10 * z (i + 2 * n))) [0..<n]"
  define nu where "nu = map (\<lambda>i. Fin (z (i + 3 * n))) [0..<n]"
  define u where "u = map (\<lambda>i. Fin (z (i + 4 * n))) [0..<n]"
  define X where "X = map2 fadd (map2 fadd (map2 fadd C Z1) Z2) nu"
  define U where "U = map2 fadd C u"
  define Y where "Y = map2 fadd (map (\<lambda>v. fadd (Fin 1) (fmul (Fin beta) v)) X) U"
  have idx: "i + n + n = i + 2 * n" "i + n + 2 * n = i + 3 * n"
    "i + n + 3 * n = i + 4 * n" "i + n + 4 * n = i + 5 * n" for i
    by simp_all
  have draws:
    "random_sampling n 10 (\<lambda>i. z (i + n + n)) =
       (map (\<lambda>i. Fin (10 * z (i + 2 * n))) [0..<n], (\<lambda>i. z (i + 3 * n)))"
    "random_sampling n 1 (\<lambda>i. z (i + 3 * n)) =
       (map (\<lambda>i. Fin (z (i + 3 * n))) [0..<n], (\<lambda>i. z (i + 4 * n)))"
    "random_sampling n 1 (\<lambda>i. z (i + 4 * n)) =
       (map (\<lambda>i. Fin (z (i + 4 * n))) [0..<n], (\<lambda>i. z (i + 5 * n)))"
    by (simp_all only: random_sampling_value idx mult_1)
  have zs: "df_getitems \<lparr>index_name = Some ''Identifier'', index = [0..<n],
         cols = [(''Y'', replicate n NaN), (''X'', replicate n NaN),
                 (''Z1'', Z1), (''Z2'', Z2)]\<rparr> [''Z1'', ''Z2''] =
      Inr \<lparr>index_name = Some ''Identifier'', index = [0..<n],
         cols = [(''Z1'', Z1), (''Z2'', Z2)]\<rparr>"
    by (simp add: df_getitems_def df_getitem_def)
  have s: "df_sum_axis1 \<lparr>index_name = Some ''Identifier'', index = [0..<n],
         cols = [(''Z1'', Z1), (''Z2'', Z2)]\<rparr> =
      map (\<lambda>i. Fin (10 * z i + 10 * z (i + n))) [0..<n]"
    unfolding Z1_def Z2_def by (rule sum_axis1_two)
  have X: "X = map (\<lambda>i. Fin (10 * z (i + 2 * n) + (10 * z i + 10 * z (i + n)) + z (i + 3 * n))) [0..<n]"
    unfolding X_def C_def Z1_def Z2_def nu_def map2_upt by (simp add: add.assoc)
  have X': "map2 fadd (map2 fadd C (map (\<lambda>i. Fin (10 * z i + 10 * z (i + n))) [0..<n])) nu = X"
    unfolding X C_def nu_def map2_upt by simp
  have setX: "df_setitem \<lparr>index_name = Some ''Identifier'', index = [0..<n],
         cols = [(''Y'', replicate n NaN), (''X'', replicate n NaN),
                 (''Z1'', Z1), (''Z2'', Z2)]\<rparr> ''X'' X =
      Inr \<lparr>index_name = Some ''Identifier'', index = [0..<n],
         cols = [(''Y'', replicate n NaN), (''X'', X), (''Z1'', Z1), (''Z2'', Z2)]\<rparr>"
    by (simp add: df_setitem_def X)
  have getX: "df_getitem \<lparr>index_name = Some ''Identifier'', index = [0..<n],
         cols = [(''Y'', replicate n NaN), (''X'', X), (''Z1'', Z1), (''Z2'', Z2)]\<rparr> ''X'' = Inr X"
    by (simp add: df_getitem_def)
  have lenY: "length Y = n"
    unfolding Y_def U_def X C_def u_def by simp
  have setY: "df_setitem \<lparr>index_name = Some ''Identifier'', index = [0..<n],
         cols = [(''Y'', replicate n NaN), (''X'', X), (''Z1'', Z1), (''Z2'', Z2)]\<rparr> ''Y'' Y =
      Inr \<lparr>index_name = Some ''Identifier'', index = [0..<n],
         cols = [(''Y'', Y), (''X'', X), (''Z1'', Z1), (''Z2'', Z2)]\<rparr>"
    by (simp add: df_setitem_def lenY)
  have "fst (get_sample_2 seeding n beta seed g0) =
       Inr \<lparr>index_name = Some ''Identifier'', index = [0..<n],
            cols = [(''Y'', Y), (''X'', X), (''Z1'', Z1), (''Z2'', Z2)]\<rparr>"
    unfolding get_sample_2_def np_random_seed_ok [OF assms] prod.case sum.case Let_def
      z_def [symmetric] fill_loop_instruments
    by (simp only: prod.case sum.case draws zs s
        C_def [symmetric] nu_def [symmetric] u_def [symmetric] X'
        Z1_def [symmetric] Z2_def [symmetric] setX getX U_def [symmetric] Y_def [symmetric]
        setY fst_conv)
  moreover have "well_formed \<lparr>index_name = Some ''Identifier'', index = [0..<n],
                  cols = [(''Y'', Y), (''X'', X), (''Z1'', Z1), (''Z2'', Z2)]\<rparr>"
    by (simp add: well_formed_def lenY) (simp add: X Z1_def Z2_def)
  ultimately show ?thesis
    unfolding z_def Z1_def Z2_def C_def nu_def u_def X_def U_def Y_def by blast
qed

text \<open>
  Claim C5, as amended. For every \<open>num_agents\<close>, every \<open>beta\<close> and every \<open>seed\<close> from 0
  to \<open>2\<^sup>3\<^sup>2 - 1\<close>, \<^verbatim>\<open>get_sample_2\<close> returns a dataframe with the columns \<open>Y\<close>, \<open>X\<close>,
  \<open>Z1\<close>, \<open>Z2\<close> whose rows satisfy \<open>X = C + Z1 + Z2 + nu\<close> and \<open>Y = 1 + beta * X + U\<close>
  with \<open>U = C + u\<close>: the error \<open>U\<close> and the regressor \<open>X\<close> share the component \<open>C\<close>. The
  five arrays are five draws of their own from the generator seeded with \<open>seed\<close>: \<open>Z1\<close>
  and \<open>Z2\<close> are made of the first \<open>2 * num_agents\<close> variates, and \<open>C\<close>, \<open>nu\<close> and \<open>u\<close>
  of the \<open>3 * num_agents\<close> that follow, so no variate enters both an instrument and one of
  \<open>C\<close>, \<open>nu\<close>, \<open>u\<close>. That distinct variates of the generator are stochastically
  independent is the library's property and not part of the statement.
\<close>

theorem get_sample_2_frame:
  assumes "seed < 2 ^ 32"
  shows "\<exists>Z1 Z2 C nu u X U Y.
     Z1 = map (\<lambda>i. Fin (10 * seeding seed i)) [0..<n] \<and>
     Z2 = map (\<lambda>i. Fin (10 * seeding seed (i + n))) [0..<n] \<and>
     C = map (\<lambda>i. Fin (10 * seeding seed (i + 2 * n))) [0..<n] \<and>
     nu = map (\<lambda>i. Fin (seeding seed (i + 3 * n))) [0..<n] \<and>
     u = map (\<lambda>i. Fin (seeding seed (i + 4 * n))) [0..<n] \<and>
     X = map2 fadd (map2 fadd (map2 fadd C Z1) Z2) nu \<and>
     U = map2 fadd C u \<and>
     Y = map2 fadd (map (\<lambda>v. fadd (Fin 1) (fmul (Fin beta) v)) X) U \<and>
     fst (get_sample_2 seeding n beta seed g0) =
       Inr \<lparr>index_name = Some ''Identifier'', index = [0..<n],
            cols = [(''Y'', Y), (''X'', X), (''Z1'', Z1), (''Z2'', Z2)]\<rparr> \<and>
     well_formed \<lparr>index_name = Some ''Identifier'', index = [0..<n],
                  cols = [(''Y'', Y), (''X'', X), (''Z1'', Z1), (''Z2'', Z2)]\<rparr>"
  using assms by (rule get_sample_2_value)

theorem get_sample_2_frame_witness:
  "(3 :: nat) < 2 ^ 32 \<and>
   fst (get_sample_2 (\<lambda>s i. real (s + i)) 1 2 3 (\<lambda>i. 0)) =
     Inr \<lparr>index_name = Some ''Identifier'', index = [0],
          cols = [(''Y'', [Fin 310]), (''X'', [Fin 126]), (''Z1'', [Fin 30]), (''Z2'', [Fin 40])]\<rparr>"
proof -
  have s: "(3 :: nat) < 2 ^ 32" by simp
  show ?thesis
    using get_sample_2_frame [OF s, where n = 1 and seeding = "\<lambda>s i. real (s + i)"
        and beta = 2 and ?g0.0 = "\<lambda>i. 0"]
    by simp
qed

text \<open>
  The claim C5 as it was stated (for every seed) fails at the seed \<open>2\<^sup>3\<^sup>2\<close>:
  \<^verbatim>\<open>np.random.seed\<close> refuses it, and \<^verbatim>\<open>get_sample_2\<close> ends with the ValueError and returns
  no dataframe.
\<close>

theorem get_sample_2_refuses_large_seed:
  "get_sample_2 (\<lambda>s i. real (s + i)) 2 2 4294967296 (\<lambda>i. 0) = (Inl ValueError, (\<lambda>i. 0))"
  by (simp add: get_sample_2_def np_random_seed_def)

text \<open>
  Claim C8, as amended. For every \<open>num_agents\<close>, every \<open>beta\<close> and every \<open>seed\<close> from 0
  to \<open>2\<^sup>3\<^sup>2 - 1\<close>, two calls of \<^verbatim>\<open>get_sample_1\<close> with these arguments return the same
  dataframe, and so do two calls of \<^verbatim>\<open>get_sample_2\<close>: whatever state the generator is in
  when the function is called, the function reseeds it before the first draw, so the
  frame it returns (and the state it leaves behind) does not depend on the state found.
\<close>

theorem samples_ignore_generator_state:
  assumes "seed < 2 ^ 32"
  shows "get_sample_1 seeding n beta seed g = get_sample_1 seeding n beta seed g' \<and>
         get_sample_2 seeding n beta seed g = get_sample_2 seeding n beta seed g' \<and>
         (\<exists>df. fst (get_sample_1 seeding n beta seed g) = Inr df \<and>
               fst (get_sample_1 seeding n beta seed g') = Inr df) \<and>
         (\<exists>df. fst (get_sample_2 seeding n beta seed g) = Inr df \<and>
               fst (get_sample_2 seeding n beta seed g') = Inr df)"
proof -
  have one: "get_sample_1 seeding n beta seed g = get_sample_1 seeding n beta seed g'"
    unfolding get_sample_1_def np_random_seed_ok [OF assms] ..
  have two: "get_sample_2 seeding n beta seed g = get_sample_2 seeding n beta seed g'"
    unfolding get_sample_2_def np_random_seed_ok [OF assms] ..
  obtain df1 where df1: "fst (get_sample_1 seeding n beta seed g) = Inr df1"
    using get_sample_1_value [OF assms, of n seeding beta g] by blast
  obtain df2 where df2: "fst (get_sample_2 seeding n beta seed g) = Inr df2"
    using get_sample_2_value [OF assms, of seeding n beta g] by blast
  from df1 one have "fst (get_sample_1 seeding n beta seed g') = Inr df1" by simp
  moreover from df2 two have "fst (get_sample_2 seeding n beta seed g') = Inr df2" by simp
  ultimately show ?thesis using one two df1 df2 by blast
qed

theorem samples_ignore_generator_state_witness:
  "(3 :: nat) < 2 ^ 32 \<and>
   get_sample_1 (\<lambda>s i. real (s + i)) 2 2 3 (\<lambda>i. 0) =
   get_sample_1 (\<lambda>s i. real (s + i)) 2 2 3 (\<lambda>i. 1) \<and>
   get_sample_2 (\<lambda>s i. real (s + i)) 2 2 3 (\<lambda>i. 0) =
   get_sample_2 (\<lambda>s i. real (s + i)) 2 2 3 (\<lambda>i. 1)"
proof -
  have s: "(3 :: nat) < 2 ^ 32" by simp
  note same = samples_ignore_generator_state [OF s, of "\<lambda>s i. real (s + i)" 2 2
      "\<lambda>i. 0" "\<lambda>i. 1"]
  show ?thesis
    by (intro conjI s same [THEN conjunct1] same [THEN conjunct2, THEN conjunct1])
qed

text \<open>
  The claim C8 as it was stated (for every seed) fails at the seed \<open>2\<^sup>3\<^sup>2\<close>: neither
  sampling function returns a dataframe, and the generator is not reseeded but left in
  the state found, which differs between two calls made in different states.
\<close>

theorem samples_not_reseeded_for_large_seed:
  "fst (get_sample_1 (\<lambda>s i. real (s + i)) 2 2 4294967296 (\<lambda>i. 0)) = Inl ValueError \<and>
   fst (get_sample_2 (\<lambda>s i. real (s + i)) 2 2 4294967296 (\<lambda>i. 0)) = Inl ValueError \<and>
   snd (get_sample_1 (\<lambda>s i. real (s + i)) 2 2 4294967296 (\<lambda>i. 0)) 0 = 0 \<and>
   snd (get_sample_1 (\<lambda>s i. real (s + i)) 2 2 4294967296 (\<lambda>i. 1)) 0 = 1"
  by (simp add: get_sample_1_def get_sample_2_def np_random_seed_def)

text \<open>
  Without the reseeding the state would matter: a draw from two states that differ in
  their first variate gives two different arrays.
\<close>

lemma draw_depends_on_state:
  "g 0 \<noteq> g' 0 \<Longrightarrow> fst (random_sampling 1 1 g) \<noteq> fst (random_sampling 1 1 g')"
  by (simp add: random_sampling_value)

section \<open>What the computations do to their argument\<close>

lemma extends_refl [simp]: "extends s s"
  by (simp add: extends_def)

lemma extends_trans: "extends s s' \<Longrightarrow> extends s' s'' \<Longrightarrow> extends s s''"
  by (auto simp: extends_def)

lemma st_alloc_extends: "st_alloc v s = (a, s') \<Longrightarrow> extends s s'"
  by (auto simp: st_alloc_def extends_def)

lemma st_alloc_read: "st_alloc v s = (a, s') \<Longrightarrow> arrays s' a = v \<and> a = next_addr s \<and> next_addr s' = Suc a"
  by (auto simp: st_alloc_def)

lemma st_map_extends: "st_map f a s = (b, s') \<Longrightarrow> extends s s'"
  unfolding st_map_def by (rule st_alloc_extends)

lemma st_binop_extends: "st_binop f a b s = (c, s') \<Longrightarrow> extends s s'"
  unfolding st_binop_def by (rule st_alloc_extends)

lemma st_getitem_view:
  "df_getitem (view s fr) label =
     (case st_getitem fr label of Inl e \<Rightarrow> Inl e | Inr a \<Rightarrow> Inr (arrays s a))"
proof -
  have "map_of (map (\<lambda>c. (fst c, arrays s (snd c))) cs) label =
        map_option (arrays s) (map_of cs label)" for cs
    by (induction cs) auto
  then show ?thesis
    by (simp add: df_getitem_def st_getitem_def view_def split: option.splits)
qed

lemma st_getitem_allocated:
  "allocated s fr \<Longrightarrow> st_getitem fr label = Inr a \<Longrightarrow> a < next_addr s"
  by (auto simp: allocated_def st_getitem_def list_all_iff split: option.splits dest!: map_of_SomeD)

lemma allocated_extends: "allocated s fr \<Longrightarrow> extends s s' \<Longrightarrow> allocated s' fr"
  by (auto simp: allocated_def extends_def list_all_iff)

lemma view_extends: "allocated s fr \<Longrightarrow> extends s s' \<Longrightarrow> view s' fr = view s fr"
  by (auto simp: allocated_def extends_def view_def list_all_iff)

lemma get_residuals_st_spec:
  assumes "allocated s fr"
  shows "extends s (snd (get_residuals_st fr beta s)) \<and>
         (case fst (get_residuals_st fr beta s) of
            Inl e \<Rightarrow> get_residuals (view s fr) beta = Inl e
          | Inr r \<Rightarrow> get_residuals (view s fr) beta = Inr (arrays (snd (get_residuals_st fr beta s)) r)
                     \<and> r < next_addr (snd (get_residuals_st fr beta s)))"
proof (cases "st_getitem fr ''Y''")
  case (Inl e)
  then show ?thesis
    by (simp add: get_residuals_st_def get_residuals_def st_getitem_view)
next
  case y: (Inr y)
  show ?thesis
  proof (cases "st_getitem fr ''X''")
    case (Inl e)
    then show ?thesis using y
      by (simp add: get_residuals_st_def get_residuals_def st_getitem_view)
  next
    case x: (Inr x)
    have yl: "y < next_addr s" and xl: "x < next_addr s"
      using assms y x by (auto dest: st_getitem_allocated)
    show ?thesis
      using y x yl xl
      by (simp add: get_residuals_st_def get_residuals_def st_getitem_view st_map_def st_binop_def
          st_alloc_def Let_def extends_def comp_def)
  qed
qed

lemma get_residuals_st_cases:
  assumes "allocated s fr"
  obtains (failed) e where "get_residuals_st fr beta s = (Inl e, s)"
      and "get_residuals (view s fr) beta = Inl e"
  | (ok) r s3 where "get_residuals_st fr beta s = (Inr r, s3)"
      and "extends s s3" and "r < next_addr s3"
      and "get_residuals (view s fr) beta = Inr (arrays s3 r)"
proof (cases "st_getitem fr ''Y''")
  case (Inl e)
  then show ?thesis
    by (intro failed [of e]) (simp_all add: get_residuals_st_def get_residuals_def st_getitem_view)
next
  case y: (Inr y)
  show ?thesis
  proof (cases "st_getitem fr ''X''")
    case (Inl e)
    then show ?thesis using y
      by (intro failed [of e]) (simp_all add: get_residuals_st_def get_residuals_def st_getitem_view)
  next
    case x: (Inr x)
    obtain r s3 where rs: "get_residuals_st fr beta s = (r, s3)" by (cases "get_residuals_st fr beta s")
    from get_residuals_st_spec [OF assms, of beta] rs y x
    obtain r' where "r = Inr r'"
      by (cases r) (simp_all add: get_residuals_def st_getitem_view)
    with get_residuals_st_spec [OF assms, of beta] rs show ?thesis
      by (intro ok [of r' s3]) simp_all
  qed
qed

lemma get_moments_1_st_spec:
  assumes "allocated s fr"
  shows "extends s (snd (get_moments_1_st fr beta s)) \<and>
         fst (get_moments_1_st fr beta s) = get_moments_1 (view s fr) beta"
  using assms
proof (cases rule: get_residuals_st_cases [where beta = beta])
  case (failed e)
  then show ?thesis
    by (simp add: get_moments_1_st_def get_moments_1_def get_residuals_def Let_def
        and_then_def split: sum.splits)
next
  case (ok r s3)
  have v: "view s3 fr = view s fr" using assms ok(2) by (rule view_extends)
  from ok(4) obtain y x where y: "df_getitem (view s fr) ''Y'' = Inr y"
    and x: "df_getitem (view s fr) ''X'' = Inr x"
    and r: "arrays s3 r = map2 fsub y (map (\<lambda>v. fadd (Fin 1) (fmul (Fin beta) v)) x)"
    by (auto simp: get_residuals_def and_then_def Let_def split: sum.splits)
  from x obtain xa where xa: "st_getitem fr ''X'' = Inr xa" and xv: "arrays s xa = x"
    by (auto simp: st_getitem_view split: sum.splits)
  have "xa < next_addr s" using assms xa by (rule st_getitem_allocated)
  then have x3: "arrays s3 xa = x" and xa3: "xa < next_addr s3"
    using ok(2) xv by (auto simp: extends_def)
  have e: "extends s3 (snd (st_binop fmul xa r s3))"
    by (cases "st_binop fmul xa r s3") (auto dest: st_binop_extends)
  have "extends s (snd (get_moments_1_st fr beta s))"
    using ok(1) xa extends_trans [OF ok(2) e]
    by (simp add: get_moments_1_st_def split_beta Let_def)
  moreover have "fst (get_moments_1_st fr beta s) = get_moments_1 (view s fr) beta"
    using ok(1) xa x3 r y x
    by (simp add: get_moments_1_st_def get_moments_1_def split_beta Let_def st_binop_def
        st_alloc_def)
  ultimately show ?thesis by simp
qed

lemma criterion_function_gmm_1_st_spec:
  assumes "allocated s fr"
  shows "extends s (snd (criterion_function_gmm_1_st beta fr s)) \<and>
         fst (criterion_function_gmm_1_st beta fr s) = criterion_function_gmm_1 beta (view s fr)"
  using get_moments_1_st_spec [OF assms, of beta]
  by (cases "get_moments_1_st fr beta s"; cases "fst (get_moments_1_st fr beta s)")
     (auto simp: criterion_function_gmm_1_st_def criterion_function_gmm_1_def)

lemma criterion_function_mle_st_spec:
  assumes "allocated s fr"
  shows "extends s (snd (criterion_function_mle_st beta fr s)) \<and>
         fst (criterion_function_mle_st beta fr s) = criterion_function_mle beta (view s fr)"
  using assms
proof (cases rule: get_residuals_st_cases [where beta = beta])
  case (failed e)
  then show ?thesis
    by (simp add: criterion_function_mle_st_def criterion_function_mle_def)
next
  case (ok r s3)
  have "extends s3 (snd (criterion_function_mle_st beta fr s))"
    using ok(1)
    by (simp add: criterion_function_mle_st_def st_map_def st_alloc_def extends_def Let_def)
  with ok(2) have "extends s (snd (criterion_function_mle_st beta fr s))"
    by (rule extends_trans)
  moreover have "fst (criterion_function_mle_st beta fr s) = criterion_function_mle beta (view s fr)"
    using ok(1,4)
    by (simp add: criterion_function_mle_st_def criterion_function_mle_def st_map_def
        st_alloc_def Let_def comp_def)
  ultimately show ?thesis by simp
qed

lemma moments_loop_st_spec:
  assumes "allocated s fr" and "r < next_addr s"
  shows "extends s (snd (moments_loop_st fr r labels moments s)) \<and>
         fst (moments_loop_st fr r labels moments s) =
           moments_loop (view s fr) (arrays s r) labels moments"
  using assms
proof (induction labels arbitrary: moments s)
  case Nil
  then show ?case by simp
next
  case (Cons label labels)
  show ?case
  proof (cases "st_getitem fr label")
    case (Inl e)
    then show ?thesis by (simp add: st_getitem_view)
  next
    case (Inr z)
    obtain t s' where b: "st_binop fmul z r s = (t, s')" by (cases "st_binop fmul z r s")
    have ext: "extends s s'" using b by (rule st_binop_extends)
    have zl: "z < next_addr s" using Cons.prems(1) Inr by (rule st_getitem_allocated)
    have t: "arrays s' t = map2 fmul (arrays s z) (arrays s r)"
      using b by (auto simp: st_binop_def st_alloc_def)
    have r': "arrays s' r = arrays s r" "r < next_addr s'"
      using ext Cons.prems(2) by (auto simp: extends_def)
    have a': "allocated s' fr" using Cons.prems(1) ext by (rule allocated_extends)
    have v': "view s' fr = view s fr" using Cons.prems(1) ext by (rule view_extends)
    note IH = Cons.IH [OF a' r'(2), of "moments @ [series_mean (arrays s' t)]"]
    have "extends s (snd (moments_loop_st fr r (label # labels) moments s))"
      using Inr b IH extends_trans [OF ext] by simp
    moreover have "fst (moments_loop_st fr r (label # labels) moments s) =
           moments_loop (view s fr) (arrays s r) (label # labels) moments"
      using Inr b IH by (simp add: st_getitem_view v' r'(1) t)
    ultimately show ?thesis by simp
  qed
qed

lemma get_moments_2_st_spec:
  assumes "allocated s fr"
  shows "extends s (snd (get_moments_2_st fr beta s)) \<and>
         fst (get_moments_2_st fr beta s) = get_moments_2 (view s fr) beta"
  using assms
proof (cases rule: get_residuals_st_cases [where beta = beta])
  case (failed e)
  then show ?thesis
    by (simp add: get_moments_2_st_def get_moments_2_def get_residuals_def Let_def
        and_then_def split: sum.splits)
next
  case (ok r s3)
  have a3: "allocated s3 fr" using assms ok(2) by (rule allocated_extends)
  have v: "view s3 fr = view s fr" using assms ok(2) by (rule view_extends)
  note loop = moments_loop_st_spec [OF a3 ok(3), of "[''Z1'', ''Z2'']" "[]"]
  have "extends s (snd (get_moments_2_st fr beta s))"
    using ok(1) loop extends_trans [OF ok(2)]
    by (simp add: get_moments_2_st_def)
  moreover have "fst (get_moments_2_st fr beta s) = get_moments_2 (view s fr) beta"
    using ok(1,4) loop
    by (auto simp: get_moments_2_st_def get_moments_2_def get_residuals_def v Let_def
        and_then_def split: sum.splits)
  ultimately show ?thesis by simp
qed

lemma criterion_function_gmm_2_st_spec:
  assumes "allocated s fr"
  shows "extends s (snd (criterion_function_gmm_2_st beta fr W s)) \<and>
         fst (criterion_function_gmm_2_st beta fr W s) =
           criterion_function_gmm_2 beta (view s fr) W"
  using get_moments_2_st_spec [OF assms, of beta]
  by (cases "get_moments_2_st fr beta s"; cases "fst (get_moments_2_st fr beta s)")
     (auto simp: criterion_function_gmm_2_st_def criterion_function_gmm_2_def)

text \<open>
  Claim C9. For every dataframe and every \<open>beta\<close>, evaluating \<^verbatim>\<open>get_moments\<close> (of
  Example 1 and of Example 2), \<^verbatim>\<open>criterion_function_gmm\<close> (of Example 1 and of Example 2)
  and \<^verbatim>\<open>criterion_function_mle\<close> leaves the frame as it was: in the store each of them
  leaves, the frame has the same index, the same columns and the same entries, and every
  array that was in use before the call is unchanged. Each function returns what its
  counterpart above computes from the frame.
\<close>

theorem computations_leave_frame_unchanged:
  assumes "allocated s fr"
  shows "view (snd (get_moments_1_st fr beta s)) fr = view s fr \<and>
         view (snd (get_moments_2_st fr beta s)) fr = view s fr \<and>
         view (snd (criterion_function_gmm_1_st beta fr s)) fr = view s fr \<and>
         view (snd (criterion_function_gmm_2_st beta fr W s)) fr = view s fr \<and>
         view (snd (criterion_function_mle_st beta fr s)) fr = view s fr \<and>
         extends s (snd (get_moments_1_st fr beta s)) \<and>
         extends s (snd (get_moments_2_st fr beta s)) \<and>
         extends s (snd (criterion_function_gmm_1_st beta fr s)) \<and>
         extends s (snd (criterion_function_gmm_2_st beta fr W s)) \<and>
         extends s (snd (criterion_function_mle_st beta fr s)) \<and>
         fst (get_moments_1_st fr beta s) = get_moments_1 (view s fr) beta \<and>
         fst (get_moments_2_st fr beta s) = get_moments_2 (view s fr) beta \<and>
         fst (criterion_function_gmm_1_st beta fr s) = criterion_function_gmm_1 beta (view s fr) \<and>
         fst (criterion_function_gmm_2_st beta fr W s) = criterion_function_gmm_2 beta (view s fr) W \<and>
         fst (criterion_function_mle_st beta fr s) = criterion_function_mle beta (view s fr)"
proof -
  note m1 = get_moments_1_st_spec [OF assms, of beta]
  note m2 = get_moments_2_st_spec [OF assms, of beta]
  note g1 = criterion_function_gmm_1_st_spec [OF assms, of beta]
  note g2 = criterion_function_gmm_2_st_spec [OF assms, of beta W]
  note ml = criterion_function_mle_st_spec [OF assms, of beta]
  note v = view_extends [OF assms]
  show ?thesis
    by (intro conjI v m1 [THEN conjunct1] m2 [THEN conjunct1] g1 [THEN conjunct1]
        g2 [THEN conjunct1] ml [THEN conjunct1] m1 [THEN conjunct2] m2 [THEN conjunct2]
        g1 [THEN conjunct2] g2 [THEN conjunct2] ml [THEN conjunct2])
qed

theorem computations_leave_frame_unchanged_witness:
  "allocated example_store example_ref \<and>
   view example_store example_ref = example_frame_2 \<and>
   view (snd (get_moments_1_st example_ref 1 example_store)) example_ref = example_frame_2 \<and>
   view (snd (get_moments_2_st example_ref 1 example_store)) example_ref = example_frame_2 \<and>
   view (snd (criterion_function_gmm_1_st 1 example_ref example_store)) example_ref =
     example_frame_2 \<and>
   view (snd (criterion_function_gmm_2_st 1 example_ref (np_identity 2) example_store))
     example_ref = example_frame_2 \<and>
   view (snd (criterion_function_mle_st 1 example_ref example_store)) example_ref =
     example_frame_2"
proof -
  have a: "allocated example_store example_ref"
    by (simp add: allocated_def example_store_def example_ref_def)
  have v: "view example_store example_ref = example_frame_2"
    by (simp add: view_def example_store_def example_ref_def example_frame_2_def)
  show ?thesis
    using computations_leave_frame_unchanged [OF a, of 1 "np_identity 2"] a v
    by (simp only: simp_thms)
qed

section \<open>Further properties\<close>

text \<open>
  A sample of size 0 (with a seed the generator accepts) is the frame with the columns
  \<open>Y\<close> and \<open>X\<close> and no rows, and on it the MLE criterion is NaN: the frame without rows
  is one the notebook's own generator returns.
\<close>

theorem empty_sample_mle_nan:
  assumes "seed < 2 ^ 32"
  shows "fst (get_sample_1 seeding 0 beta seed g) = Inr empty_frame \<and>
         criterion_function_mle b empty_frame = Inr NaN"
proof -
  have "fst (get_sample_1 seeding 0 beta seed g) = Inr empty_frame"
    unfolding get_sample_1_def np_random_seed_ok [OF assms]
    by (simp add: random_sampling_value np_vstack_def pd_DataFrame_def
        pd_Index_def empty_frame_def upt_2)
  moreover have "criterion_function_mle b empty_frame = Inr NaN"
    by (simp add: criterion_function_mle_def get_residuals_def df_getitem_def empty_frame_def
        np_mean_def)
  ultimately show ?thesis by simp
qed

theorem empty_sample_mle_nan_witness:
  "(123 :: nat) < 2 ^ 32 \<and>
   fst (get_sample_1 (\<lambda>s i. real (s + i)) 0 7 123 (\<lambda>i. 0)) = Inr empty_frame \<and>
   criterion_function_mle 7 empty_frame = Inr NaN"
proof -
  have s: "(123 :: nat) < 2 ^ 32" by simp
  note e = empty_sample_mle_nan [OF s, of "\<lambda>s i. real (s + i)" 7 "\<lambda>i. 0" 7]
  show ?thesis by (intro conjI s e [THEN conjunct1] e [THEN conjunct2])
qed

text \<open>
  No function catches an error: on a frame without the column \<open>Y\<close> the first
  \<^verbatim>\<open>df["Y"]\<close> raises KeyError, and the moment and criterion functions all end with that
  error.
\<close>

theorem missing_column_is_key_error:
  assumes "map_of (cols df) ''Y'' = None"
  shows "get_moments_1 df beta = Inl (KeyError ''Y'') \<and>
         get_moments_2 df beta = Inl (KeyError ''Y'') \<and>
         criterion_function_gmm_1 beta df = Inl (KeyError ''Y'') \<and>
         criterion_function_gmm_2 beta df W = Inl (KeyError ''Y'') \<and>
         criterion_function_mle beta df = Inl (KeyError ''Y'')"
proof -
  have "df_getitem df ''Y'' = Inl (KeyError ''Y'')"
    using assms by (simp add: df_getitem_def)
  then show ?thesis
    by (simp add: get_moments_1_def get_moments_2_def criterion_function_gmm_1_def
        criterion_function_gmm_2_def criterion_function_mle_def get_residuals_def)
qed

theorem missing_column_is_key_error_witness:
  "map_of (cols \<lparr>index_name = None, index = [0], cols = [(''X'', [Fin 1])]\<rparr>) ''Y'' = None \<and>
   criterion_function_mle 1 \<lparr>index_name = None, index = [0], cols = [(''X'', [Fin 1])]\<rparr> =
     Inl (KeyError ''Y'')"
proof -
  have h: "map_of (cols \<lparr>index_name = None, index = [0], cols = [(''X'', [Fin 1])]\<rparr>) ''Y'' = None"
    by simp
  from missing_column_is_key_error [OF h, of 1] h show ?thesis by simp
qed

end
